theory Spec2Isabelle
  imports Complex_Main
begin

section \<open>Quantized 2-D convolution module (torch/nn/quantized/modules/conv.py)\<close>

text \<open>
  A shallow embedding of the class \<open>Conv2d\<close> of \<open>torch/nn/quantized/modules/conv.py\<close>.
  Python's unbounded integers are \<open>int\<close>; Python floats are idealised as \<open>real\<close>.
  Every exception the source can raise is a value of \<open>error\<close>; every method is a
  function from the state of the interpreter (\<open>world\<close>) to a result and the state
  afterwards, so that the state left behind by a raised exception can be observed.
\<close>

subsection \<open>Exceptions\<close>

datatype error =
    NotImplementedError string
  | ValueError string
  | AssertionError string
  | KeyError string
  | AttributeError string
  | IndexError
  | TypeError
  | RuntimeError
  | ZeroDivisionError

subsection \<open>Tensors\<close>

datatype dtype = QInt8 | QUInt8 | QInt32 | Float | Int64

fun is_quantized_dtype :: "dtype \<Rightarrow> bool" where
  "is_quantized_dtype QInt8 = True"
| "is_quantized_dtype QUInt8 = True"
| "is_quantized_dtype QInt32 = True"
| "is_quantized_dtype Float = False"
| "is_quantized_dtype Int64 = False"

datatype storage = IntStorage "int list" | RealStorage "real list"

text \<open>
  A tensor is a view on a storage: the extent of every axis (\<open>sizes\<close>), the step in the
  storage of every axis (\<open>strides\<close>), the stored elements, and for a quantized dtype the
  QuantParams \<open>qscale\<close> and \<open>qzero\<close>. The stored elements of a quantized tensor are its
  integer values.
\<close>

record tensor =
  dtype :: dtype
  sizes :: "nat list"
  strides :: "nat list"
  storage :: storage
  qscale :: real
  qzero :: int

definition is_quantized :: "tensor \<Rightarrow> bool" where
  "is_quantized t = is_quantized_dtype (dtype t)"

text \<open>
  Modelled from the spec: \<open>Tensor.permute\<close> belongs to the tensor library, which is not
  part of the source file. \<open>t.permute(dims)\<close> is the view of \<open>t\<close> whose axis \<open>i\<close> is the
  axis \<open>dims[i]\<close> of \<open>t\<close>: sizes and strides are reordered, the storage and the
  QuantParams are shared. So \<open>[0, 2, 3, 1]\<close> takes the layout NCHW to NHWC, as the comment
  of the source at the placeholder weight says. It raises when \<open>dims\<close> is not a
  permutation of the axes of \<open>t\<close>.
\<close>

definition is_axis_permutation :: "nat list \<Rightarrow> nat \<Rightarrow> bool" where
  "is_axis_permutation dims n = (length dims = n \<and> distinct dims \<and> list_all (\<lambda>d. d < n) dims)"

definition permute :: "nat list \<Rightarrow> tensor \<Rightarrow> error + tensor" where
  "permute dims t =
     (if is_axis_permutation dims (length (sizes t)) \<and> length (strides t) = length (sizes t)
      then Inr (t\<lparr>sizes := map (\<lambda>d. sizes t ! d) dims,
                  strides := map (\<lambda>d. strides t ! d) dims\<rparr>)
      else Inl RuntimeError)"

text \<open>The position in the storage of the element at a multi-index.\<close>

definition storage_offset :: "tensor \<Rightarrow> nat list \<Rightarrow> nat" where
  "storage_offset t idx = sum_list (map2 (*) idx (strides t))"

text \<open>\<open>Tensor.q_scale()\<close> raises on a tensor that is not quantized.\<close>

definition q_scale :: "tensor \<Rightarrow> error + real" where
  "q_scale t = (if is_quantized t then Inr (qscale t) else Inl RuntimeError)"

subsection \<open>Values held by attributes and state dictionaries\<close>

text \<open>
  The values that the attribute \<open>bias\<close> and the entries of a state dictionary can hold:
  \<open>None\<close>, a tensor, or the opaque handle that \<open>conv_prepack\<close> returns. The type
  \<open>'pk\<close> of the handle is left open: it belongs to the compute backend.
\<close>

datatype 'pk pyval = NoneV | TensorV tensor | PackedV 'pk

fun is_packed :: "'pk pyval \<Rightarrow> bool" where
  "is_packed (PackedV p) = True"
| "is_packed v = False"

subsection \<open>The module object\<close>

record 'pk conv2d =
  in_channels :: int
  out_channels :: int
  kernel_size :: "int list"
  stride :: "int list"
  padding :: "int list"
  dilation :: "int list"
  transposed :: bool
  output_padding :: int
  groups :: int
  padding_mode :: string
  packed_weight :: "'pk option"
  weight_scale :: real
  bias :: "'pk pyval"
  scale :: real
  zero_point :: int

text \<open>
  \<open>packed_weight\<close> is the attribute \<open>_packed_weight\<close>; \<open>None\<close> stands for an attribute
  that has not been assigned yet, and reading it raises \<open>AttributeError\<close>.
\<close>

subsection \<open>Float modules and observers\<close>

text \<open>
  An observer has a configured dtype and the tensors it has been called on; the
  QuantParams it derives from them are computed by the calibration subsystem
  (\<open>calculate_qparams\<close>, a parameter below).
\<close>

record observer =
  obs_dtype :: dtype
  obs_seen :: "tensor list"

text \<open>\<open>qconfig.weight()\<close> builds the weight observer \<open>qconfig_weight\<close>.\<close>

record qconfig =
  qconfig_weight :: observer

text \<open>An argument that is an integer or a tuple of integers.\<close>

datatype size_arg = IntArg int | TupleArg "int list"

text \<open>
  \<open>type(mod)\<close>: the three classes the source compares it with, and any other class.
\<close>

datatype mod_type = NN_Conv2d | NNIQAT_ConvBn2d | NNI_ConvReLU2d | OtherModule

text \<open>
  The attributes of the float module that \<open>from_float\<close> reads. An attribute whose
  presence the source tests with \<open>hasattr\<close> is an option.
\<close>

record float_attrs =
  mod_type :: mod_type
  mod_weight_fake_quant :: "observer option"
  mod_observer :: "observer option"
  mod_qconfig :: "qconfig option"
  mod_weight :: tensor
  mod_bias :: "tensor option"
  mod_running_mean :: tensor
  mod_running_var :: tensor
  mod_eps :: real
  mod_gamma :: tensor
  mod_beta :: tensor
  mod_in_channels :: int
  mod_out_channels :: int
  mod_kernel_size :: size_arg
  mod_stride :: size_arg
  mod_padding :: size_arg
  mod_dilation :: size_arg
  mod_groups :: int
  mod_padding_mode :: string

text \<open>A module and the modules it contains (\<open>mod[0]\<close>, \<open>mod[1]\<close>).\<close>

datatype float_module = FloatModule (attrs: float_attrs) (children: "float_module list")

subsection \<open>Calls that leave the module\<close>

text \<open>
  The arguments of the compute kernel \<open>ops.quantized.conv2d\<close>, in the order of the call.
\<close>

record 'pk conv2d_args =
  arg_input :: tensor
  arg_packed_weight :: 'pk
  arg_bias :: "'pk pyval"
  arg_stride :: "int list"
  arg_padding :: "int list"
  arg_dilation :: "int list"
  arg_groups :: int
  arg_scale :: real
  arg_zero_point :: int

text \<open>
  Every call of a function outside the source file is recorded, with its arguments, in
  the order in which the calls are made.
\<close>

datatype 'pk call =
    EmptyAffineQuantized "int list" real int dtype
  | ConvPrepack tensor "int list" "int list" "int list" int
  | ConvUnpack 'pk
  | Conv2dKernel "'pk conv2d_args"
  | QuantizeLinear tensor real int dtype
  | Dequantize tensor
  | FuseConvBnWeights tensor "tensor option" tensor tensor real tensor tensor
  | ObserverCall observer tensor
  | CalculateQparams observer
  | ModuleSaveToStateDict "string \<rightharpoonup> 'pk pyval" string bool
  | ModuleLoadFromStateDict "string \<rightharpoonup> 'pk pyval" string bool

text \<open>
  The functions of the compute backend, of the calibration subsystem and of the module
  base class are parameters of the model: the source only calls them.
\<close>

record 'pk ops =
  empty_affine_quantized :: "int list \<Rightarrow> real \<Rightarrow> int \<Rightarrow> dtype \<Rightarrow> error + tensor"
  conv_prepack :: "tensor \<Rightarrow> int list \<Rightarrow> int list \<Rightarrow> int list \<Rightarrow> int \<Rightarrow> error + 'pk"
  conv_unpack :: "'pk \<Rightarrow> error + tensor"
  conv2d_kernel :: "'pk conv2d_args \<Rightarrow> error + tensor"
  fuse_conv_bn_weights ::
    "tensor \<Rightarrow> tensor option \<Rightarrow> tensor \<Rightarrow> tensor \<Rightarrow> real \<Rightarrow> tensor \<Rightarrow> tensor \<Rightarrow> tensor \<times> tensor"
  calculate_qparams :: "observer \<Rightarrow> real \<times> int"
  module_save_to_state_dict ::
    "(string \<rightharpoonup> 'pk pyval) \<Rightarrow> string \<Rightarrow> bool \<Rightarrow> (string \<rightharpoonup> 'pk pyval)"
  module_load_from_state_dict ::
    "(string \<rightharpoonup> 'pk pyval) \<Rightarrow> string \<Rightarrow> bool \<Rightarrow> (string \<rightharpoonup> 'pk pyval)"

subsection \<open>The state of the interpreter and statements\<close>

text \<open>
  \<open>obj\<close> is the module object a method works on (\<open>self\<close>; \<open>qconv\<close> in \<open>from_float\<close>),
  \<open>dict\<close> is the mapping a method receives by reference (\<open>destination\<close>, \<open>state_dict\<close>),
  \<open>calls\<close> is the record of the calls made so far.
\<close>

record 'pk world =
  obj :: "'pk conv2d"
  dict :: "string \<rightharpoonup> 'pk pyval"
  calls :: "'pk call list"

type_synonym ('pk, 'a) py = "'pk world \<Rightarrow> (error + 'a) \<times> 'pk world"

definition ret :: "'a \<Rightarrow> ('pk, 'a) py" where
  "ret x = (\<lambda>w. (Inr x, w))"

definition raise :: "error \<Rightarrow> ('pk, 'a) py" where
  "raise e = (\<lambda>w. (Inl e, w))"

text \<open>Sequencing: an exception in the first statement skips the rest.\<close>

definition bnd :: "('pk, 'a) py \<Rightarrow> ('a \<Rightarrow> ('pk, 'b) py) \<Rightarrow> ('pk, 'b) py" where
  "bnd m f = (\<lambda>w. case m w of (Inl e, w') \<Rightarrow> (Inl e, w') | (Inr x, w') \<Rightarrow> f x w')"

definition lift :: "error + 'a \<Rightarrow> ('pk, 'a) py" where
  "lift r = (case r of Inl e \<Rightarrow> raise e | Inr x \<Rightarrow> ret x)"

definition get_obj :: "('pk, 'pk conv2d) py" where
  "get_obj = (\<lambda>w. (Inr (obj w), w))"

definition set_attr :: "('pk conv2d \<Rightarrow> 'pk conv2d) \<Rightarrow> ('pk, unit) py" where
  "set_attr f = (\<lambda>w. (Inr (), w\<lparr>obj := f (obj w)\<rparr>))"

definition record_call :: "'pk call \<Rightarrow> ('pk, unit) py" where
  "record_call c = (\<lambda>w. (Inr (), w\<lparr>calls := calls w @ [c]\<rparr>))"

text \<open>An external call: it is recorded, then it returns or raises.\<close>

definition external :: "'pk call \<Rightarrow> error + 'a \<Rightarrow> ('pk, 'a) py" where
  "external c r = bnd (record_call c) (\<lambda>_. lift r)"

text \<open>Reading \<open>self._packed_weight\<close>.\<close>

definition get_packed_weight :: "('pk, 'pk) py" where
  "get_packed_weight =
     bnd get_obj (\<lambda>self.
       case packed_weight self of
         None \<Rightarrow> raise (AttributeError ''_packed_weight'')
       | Some p \<Rightarrow> ret p)"

subsection \<open>\<open>set_weight\<close> and \<open>weight\<close>\<close>

text \<open>
  \<^verbatim>\<open>
  def set_weight(self, w):
      self._packed_weight = torch.ops.quantized.conv_prepack(
          w.permute([0, 2, 3, 1]), self.stride, self.padding, self.dilation, self.groups)
      self.weight_scale = w.q_scale()
  \<close>
\<close>

definition set_weight :: "'pk ops \<Rightarrow> tensor \<Rightarrow> ('pk, unit) py" where
  "set_weight ops w =
     bnd (lift (permute [0, 2, 3, 1] w)) (\<lambda>w_nhwc.
     bnd get_obj (\<lambda>self.
     bnd (external
            (ConvPrepack w_nhwc (stride self) (padding self) (dilation self) (groups self))
            (conv_prepack ops w_nhwc (stride self) (padding self) (dilation self) (groups self)))
         (\<lambda>p.
     bnd (set_attr (\<lambda>self. self\<lparr>packed_weight := Some p\<rparr>)) (\<lambda>_.
     bnd (lift (q_scale w)) (\<lambda>s.
     set_attr (\<lambda>self. self\<lparr>weight_scale := s\<rparr>))))))"

text \<open>
  \<^verbatim>\<open>
  def weight(self):
      return torch.ops.quantized.conv_unpack(
          self._packed_weight).permute([0, 3, 1, 2])
  \<close>
\<close>

definition weight :: "'pk ops \<Rightarrow> ('pk, tensor) py" where
  "weight ops =
     bnd get_packed_weight (\<lambda>p.
     bnd (external (ConvUnpack p) (conv_unpack ops p)) (\<lambda>w_nhwc.
     lift (permute [0, 3, 1, 2] w_nhwc)))"

subsection \<open>Quantization math of the tensor library\<close>

fun dtype_min :: "dtype \<Rightarrow> int" where
  "dtype_min QInt8 = - 128"
| "dtype_min QUInt8 = 0"
| "dtype_min QInt32 = - 2147483648"
| "dtype_min Float = 0"
| "dtype_min Int64 = - 9223372036854775808"

fun dtype_max :: "dtype \<Rightarrow> int" where
  "dtype_max QInt8 = 127"
| "dtype_max QUInt8 = 255"
| "dtype_max QInt32 = 2147483647"
| "dtype_max Float = 0"
| "dtype_max Int64 = 9223372036854775807"

definition clamp_to :: "dtype \<Rightarrow> int \<Rightarrow> int" where
  "clamp_to dt q = max (dtype_min dt) (min (dtype_max dt) q)"

text \<open>
  Modelled from the spec: \<open>torch.quantize_linear\<close> is a function of the tensor library,
  not part of the source file. Section 4.1: quantize "applies round(real/scale) +
  zero_point, clamps to dtype range". The result carries the QuantParams and the dtype
  it was made with. It raises on an input that is not a float tensor and on a target
  dtype that is not quantized.
\<close>

definition quantize_linear :: "tensor \<Rightarrow> real \<Rightarrow> int \<Rightarrow> dtype \<Rightarrow> error + tensor" where
  "quantize_linear x s z dt =
     (case storage x of
        RealStorage rs \<Rightarrow>
          if dtype x = Float \<and> is_quantized_dtype dt
          then Inr \<lparr>dtype = dt, sizes = sizes x, strides = strides x,
                    storage = IntStorage (map (\<lambda>r. clamp_to dt (round (r / s) + z)) rs),
                    qscale = s, qzero = z\<rparr>
          else Inl RuntimeError
      | IntStorage qs \<Rightarrow> Inl RuntimeError)"

text \<open>
  Modelled from the spec: \<open>Tensor.dequantize\<close> is a function of the tensor library, not
  part of the source file. Section 3: "real_value = scale * (quantized_value -
  zero_point)". It raises on a tensor that is not quantized.
\<close>

definition dequantize :: "tensor \<Rightarrow> error + tensor" where
  "dequantize t =
     (case storage t of
        IntStorage qs \<Rightarrow>
          if is_quantized t
          then Inr \<lparr>dtype = Float, sizes = sizes t, strides = strides t,
                    storage = RealStorage (map (\<lambda>q. qscale t * of_int (q - qzero t)) qs),
                    qscale = 1, qzero = 0\<rparr>
          else Inl RuntimeError
      | RealStorage rs \<Rightarrow> Inl RuntimeError)"

text \<open>
  Modelled from the spec: \<open>Tensor.float()\<close>, \<open>torch.tensor\<close>, and the conversions
  \<open>float(t)\<close> and \<open>int(t)\<close> of a tensor belong to the tensor library. \<open>Tensor.float()\<close>
  converts the elements to floats; \<open>torch.tensor(x)\<close> is the tensor without axes that
  holds \<open>x\<close>; \<open>float(t)\<close> and \<open>int(t)\<close> give the only element of a tensor that is not
  quantized and raise on any other value, \<open>int\<close> truncating towards zero.
\<close>

definition tensor_float :: "tensor \<Rightarrow> error + tensor" where
  "tensor_float t =
     (case storage t of
        RealStorage rs \<Rightarrow> Inr t
      | IntStorage qs \<Rightarrow>
          if is_quantized t then Inl RuntimeError
          else Inr (t\<lparr>dtype := Float, storage := RealStorage (map of_int qs)\<rparr>))"

definition torch_tensor_real :: "real \<Rightarrow> tensor" where
  "torch_tensor_real r =
     \<lparr>dtype = Float, sizes = [], strides = [], storage = RealStorage [r], qscale = 1, qzero = 0\<rparr>"

definition torch_tensor_int :: "int \<Rightarrow> tensor" where
  "torch_tensor_int i =
     \<lparr>dtype = Int64, sizes = [], strides = [], storage = IntStorage [i], qscale = 1, qzero = 0\<rparr>"

definition trunc :: "real \<Rightarrow> int" where
  "trunc r = (if 0 \<le> r then \<lfloor>r\<rfloor> else \<lceil>r\<rceil>)"

fun py_float :: "'pk pyval \<Rightarrow> error + real" where
  "py_float NoneV = Inl TypeError"
| "py_float (PackedV p) = Inl RuntimeError"
| "py_float (TensorV t) =
     (if is_quantized t then Inl RuntimeError
      else if prod_list (sizes t) \<noteq> 1
      then Inl (ValueError ''only one element tensors can be converted to Python scalars'')
      else (case storage t of
              RealStorage (r # rs) \<Rightarrow> Inr r
            | IntStorage (i # is) \<Rightarrow> Inr (of_int i)
            | _ \<Rightarrow> Inl RuntimeError))"

fun py_int :: "'pk pyval \<Rightarrow> error + int" where
  "py_int NoneV = Inl TypeError"
| "py_int (PackedV p) = Inl RuntimeError"
| "py_int (TensorV t) =
     (if is_quantized t then Inl RuntimeError
      else if prod_list (sizes t) \<noteq> 1
      then Inl (ValueError ''only one element tensors can be converted to Python scalars'')
      else (case storage t of
              RealStorage (r # rs) \<Rightarrow> Inr (trunc r)
            | IntStorage (i # is) \<Rightarrow> Inr i
            | _ \<Rightarrow> Inl RuntimeError))"

subsection \<open>Python arithmetic and indexing\<close>

text \<open>\<open>a % b\<close> and \<open>a // b\<close> on integers raise when \<open>b\<close> is zero.\<close>

definition py_mod :: "int \<Rightarrow> int \<Rightarrow> error + int" where
  "py_mod a b = (if b = 0 then Inl ZeroDivisionError else Inr (a mod b))"

definition py_floordiv :: "int \<Rightarrow> int \<Rightarrow> error + int" where
  "py_floordiv a b = (if b = 0 then Inl ZeroDivisionError else Inr (a div b))"

text \<open>\<open>xs[i]\<close> for an index that is not negative.\<close>

definition py_index :: "'a list \<Rightarrow> nat \<Rightarrow> error + 'a" where
  "py_index xs i = (if i < length xs then Inr (xs ! i) else Inl IndexError)"

text \<open>
  \<open>_pair\<close> of \<open>torch.nn.modules.utils\<close>: an iterable is returned as it is, anything
  else is repeated twice.
\<close>

fun py_pair :: "size_arg \<Rightarrow> int list" where
  "py_pair (IntArg n) = [n, n]"
| "py_pair (TupleArg xs) = xs"

subsection \<open>Construction\<close>

text \<open>
  \<^verbatim>\<open>
  def __init__(self, in_channels, out_channels, kernel_size, stride=1,
               padding=0, dilation=1, groups=1,
               bias=True, padding_mode='zeros'):
      super(Conv2d, self).__init__()
      if padding_mode != 'zeros':
          raise NotImplementedError(
              "Currently only zero-padding is supported by quantized conv")
      if in_channels % groups != 0:
          raise ValueError('in_channels must be divisible by groups')
      if out_channels % groups != 0:
          raise ValueError('out_channels must be divisible by groups')
      self.in_channels = in_channels
      self.out_channels = out_channels
      self.kernel_size = _pair(kernel_size)
      self.stride = _pair(stride)
      self.padding = _pair(padding)
      self.dilation = _pair(dilation)
      self.transposed = False
      self.output_padding = 0
      self.groups = groups
      self.padding_mode = padding_mode
      qweight = torch._empty_affine_quantized(
          [out_channels, in_channels // self.groups, self.kernel_size[0],
              self.kernel_size[1]],
          scale=1, zero_point=0, dtype=torch.qint8)
      self.weight_scale = 1.0
      self.set_weight(qweight)
      if bias:
          self.bias = torch._empty_affine_quantized([out_channels],
                                                    scale=1.0, zero_point=0,
                                                    dtype=torch.qint32)
      else:
          self.bias = None
      self.scale = 1.0
      self.zero_point = 0
  \<close>
  The base class initialiser (\<open>super().__init__()\<close>) is attribute-registration plumbing
  and has no counterpart in the model.
\<close>

definition init ::
  "'pk ops \<Rightarrow> int \<Rightarrow> int \<Rightarrow> size_arg \<Rightarrow> size_arg \<Rightarrow> size_arg \<Rightarrow> size_arg \<Rightarrow> int \<Rightarrow> bool \<Rightarrow> string
   \<Rightarrow> ('pk, unit) py" where
  "init ops in_channels' out_channels' kernel_size' stride' padding' dilation' groups' bias'
        padding_mode' =
     (if padding_mode' \<noteq> ''zeros''
      then raise (NotImplementedError
                    ''Currently only zero-padding is supported by quantized conv'')
      else
     bnd (lift (py_mod in_channels' groups')) (\<lambda>r_in.
     if r_in \<noteq> 0 then raise (ValueError ''in_channels must be divisible by groups'')
     else
     bnd (lift (py_mod out_channels' groups')) (\<lambda>r_out.
     if r_out \<noteq> 0 then raise (ValueError ''out_channels must be divisible by groups'')
     else
     bnd (set_attr (\<lambda>self. self\<lparr>in_channels := in_channels'\<rparr>)) (\<lambda>_.
     bnd (set_attr (\<lambda>self. self\<lparr>out_channels := out_channels'\<rparr>)) (\<lambda>_.
     bnd (set_attr (\<lambda>self. self\<lparr>kernel_size := py_pair kernel_size'\<rparr>)) (\<lambda>_.
     bnd (set_attr (\<lambda>self. self\<lparr>stride := py_pair stride'\<rparr>)) (\<lambda>_.
     bnd (set_attr (\<lambda>self. self\<lparr>padding := py_pair padding'\<rparr>)) (\<lambda>_.
     bnd (set_attr (\<lambda>self. self\<lparr>dilation := py_pair dilation'\<rparr>)) (\<lambda>_.
     bnd (set_attr (\<lambda>self. self\<lparr>transposed := False\<rparr>)) (\<lambda>_.
     bnd (set_attr (\<lambda>self. self\<lparr>output_padding := 0\<rparr>)) (\<lambda>_.
     bnd (set_attr (\<lambda>self. self\<lparr>groups := groups'\<rparr>)) (\<lambda>_.
     bnd (set_attr (\<lambda>self. self\<lparr>padding_mode := padding_mode'\<rparr>)) (\<lambda>_.
     bnd get_obj (\<lambda>self.
     bnd (lift (py_floordiv in_channels' (groups self))) (\<lambda>per_group.
     bnd (lift (py_index (kernel_size self) 0)) (\<lambda>k0.
     bnd (lift (py_index (kernel_size self) 1)) (\<lambda>k1.
     bnd (external (EmptyAffineQuantized [out_channels', per_group, k0, k1] 1 0 QInt8)
            (empty_affine_quantized ops [out_channels', per_group, k0, k1] 1 0 QInt8))
         (\<lambda>qweight.
     bnd (set_attr (\<lambda>self. self\<lparr>weight_scale := 1\<rparr>)) (\<lambda>_.
     bnd (set_weight ops qweight) (\<lambda>_.
     bnd (if bias'
          then bnd (external (EmptyAffineQuantized [out_channels'] 1 0 QInt32)
                      (empty_affine_quantized ops [out_channels'] 1 0 QInt32))
                 (\<lambda>b. set_attr (\<lambda>self. self\<lparr>bias := TensorV b\<rparr>))
          else set_attr (\<lambda>self. self\<lparr>bias := NoneV\<rparr>)) (\<lambda>_.
     bnd (set_attr (\<lambda>self. self\<lparr>scale := 1\<rparr>)) (\<lambda>_.
     set_attr (\<lambda>self. self\<lparr>zero_point := 0\<rparr>)))))))))))))))))))))))"

text \<open>
  The object that \<open>__init__\<close> receives: no attribute has been assigned. Only
  \<open>_packed_weight\<close> is tracked as unassigned, the other fields hold placeholders that
  \<open>__init__\<close> overwrites before anything reads them.
\<close>

definition fresh_object :: "'pk conv2d" where
  "fresh_object =
     \<lparr>in_channels = 0, out_channels = 0, kernel_size = [], stride = [], padding = [],
      dilation = [], transposed = False, output_padding = 0, groups = 0, padding_mode = [],
      packed_weight = None, weight_scale = 0, bias = NoneV, scale = 0, zero_point = 0\<rparr>"

text \<open>
  The call \<open>Conv2d(...)\<close> (\<open>cls(...)\<close> in \<open>from_float\<close>): a new object is made and
  initialised; it is the result only when \<open>__init__\<close> returns.
\<close>

definition Conv2d ::
  "'pk ops \<Rightarrow> int \<Rightarrow> int \<Rightarrow> size_arg \<Rightarrow> size_arg \<Rightarrow> size_arg \<Rightarrow> size_arg \<Rightarrow> int \<Rightarrow> bool \<Rightarrow> string
   \<Rightarrow> ('pk, 'pk conv2d) py" where
  "Conv2d ops in_channels' out_channels' kernel_size' stride' padding' dilation' groups' bias'
          padding_mode' =
     bnd (set_attr (\<lambda>_. fresh_object)) (\<lambda>_.
     bnd (init ops in_channels' out_channels' kernel_size' stride' padding' dilation' groups'
            bias' padding_mode') (\<lambda>_.
     get_obj))"

subsection \<open>\<open>forward\<close>\<close>

text \<open>
  \<^verbatim>\<open>
  def forward(self, input):
      if len(input.shape) != 4:
          raise ValueError("Input shape must be `(N, C, H, W)`!")
      bias = self.bias
      if bias is not None:
          bias = torch.quantize_linear(bias.dequantize(), self.weight_scale * input.q_scale(), 0, torch.qint32)
      output = ops.quantized.conv2d(input.permute([0, 2, 3, 1]),
                                    self._packed_weight, bias,
                                    self.stride, self.padding,
                                    self.dilation, self.groups,
                                    self.scale, self.zero_point)
      return output.permute([0, 3, 1, 2])
  \<close>
  A bias that is an opaque handle has no \<open>dequantize\<close>: the model lets the call raise.
\<close>

definition forward :: "'pk ops \<Rightarrow> tensor \<Rightarrow> ('pk, tensor) py" where
  "forward ops input =
     (if length (sizes input) \<noteq> 4
      then raise (ValueError ''Input shape must be `(N, C, H, W)`!'')
      else
     bnd get_obj (\<lambda>self.
     bnd (case bias self of
            NoneV \<Rightarrow> ret NoneV
          | TensorV b \<Rightarrow>
              bnd (external (Dequantize b) (dequantize b)) (\<lambda>b_real.
              bnd (lift (q_scale input)) (\<lambda>input_scale.
              bnd (external
                     (QuantizeLinear b_real (weight_scale self * input_scale) 0 QInt32)
                     (quantize_linear b_real (weight_scale self * input_scale) 0 QInt32))
                  (\<lambda>b_q.
              ret (TensorV b_q))))
          | PackedV p \<Rightarrow> raise RuntimeError) (\<lambda>bias'.
     bnd (lift (permute [0, 2, 3, 1] input)) (\<lambda>input_nhwc.
     bnd get_packed_weight (\<lambda>p.
     bnd (external
            (Conv2dKernel
               \<lparr>arg_input = input_nhwc, arg_packed_weight = p, arg_bias = bias',
                arg_stride = stride self, arg_padding = padding self,
                arg_dilation = dilation self, arg_groups = groups self,
                arg_scale = scale self, arg_zero_point = zero_point self\<rparr>)
            (conv2d_kernel ops
               \<lparr>arg_input = input_nhwc, arg_packed_weight = p, arg_bias = bias',
                arg_stride = stride self, arg_padding = padding self,
                arg_dilation = dilation self, arg_groups = groups self,
                arg_scale = scale self, arg_zero_point = zero_point self\<rparr>))
         (\<lambda>output.
     lift (permute [0, 3, 1, 2] output)))))))"

subsection \<open>Serialization\<close>

text \<open>Statements on the mapping received by reference.\<close>

definition set_item :: "string \<Rightarrow> 'pk pyval \<Rightarrow> ('pk, unit) py" where
  "set_item k v = (\<lambda>w. (Inr (), w\<lparr>dict := (dict w)(k \<mapsto> v)\<rparr>))"

definition get_item :: "string \<Rightarrow> ('pk, 'pk pyval) py" where
  "get_item k = (\<lambda>w. case dict w k of None \<Rightarrow> (Inl (KeyError k), w) | Some v \<Rightarrow> (Inr v, w))"

definition pop_item :: "string \<Rightarrow> ('pk, 'pk pyval) py" where
  "pop_item k =
     (\<lambda>w. case dict w k of
             None \<Rightarrow> (Inl (KeyError k), w)
           | Some v \<Rightarrow> (Inr v, w\<lparr>dict := (dict w)(k := None)\<rparr>))"

text \<open>
  The savers and loaders of the base class work on the same mapping: the call is
  recorded with the mapping it receives, and the mapping becomes what the base class
  makes of it.
\<close>

definition super_save_to_state_dict :: "'pk ops \<Rightarrow> string \<Rightarrow> bool \<Rightarrow> ('pk, unit) py" where
  "super_save_to_state_dict ops prefix keep_vars =
     (\<lambda>w. (Inr (), w\<lparr>dict := module_save_to_state_dict ops (dict w) prefix keep_vars,
                      calls := calls w @ [ModuleSaveToStateDict (dict w) prefix keep_vars]\<rparr>))"

definition super_load_from_state_dict :: "'pk ops \<Rightarrow> string \<Rightarrow> bool \<Rightarrow> ('pk, unit) py" where
  "super_load_from_state_dict ops prefix strict =
     (\<lambda>w. (Inr (), w\<lparr>dict := module_load_from_state_dict ops (dict w) prefix strict,
                      calls := calls w @ [ModuleLoadFromStateDict (dict w) prefix strict]\<rparr>))"

text \<open>
  \<^verbatim>\<open>
  def _save_to_state_dict(self, destination, prefix, keep_vars):
      super(Conv2d, self)._save_to_state_dict(destination, prefix, keep_vars)
      destination[prefix + 'weight'] = self.weight()
      destination[prefix + 'scale'] = torch.tensor(self.scale)
      destination[prefix + 'zero_point'] = torch.tensor(self.zero_point)
      destination[prefix + 'bias'] = self.bias
  \<close>
\<close>

definition save_to_state_dict :: "'pk ops \<Rightarrow> string \<Rightarrow> bool \<Rightarrow> ('pk, unit) py" where
  "save_to_state_dict ops prefix keep_vars =
     bnd (super_save_to_state_dict ops prefix keep_vars) (\<lambda>_.
     bnd (weight ops) (\<lambda>w.
     bnd (set_item (prefix @ ''weight'') (TensorV w)) (\<lambda>_.
     bnd get_obj (\<lambda>self.
     bnd (set_item (prefix @ ''scale'') (TensorV (torch_tensor_real (scale self)))) (\<lambda>_.
     bnd (set_item (prefix @ ''zero_point'') (TensorV (torch_tensor_int (zero_point self))))
         (\<lambda>_.
     set_item (prefix @ ''bias'') (bias self)))))))"

text \<open>
  \<^verbatim>\<open>
  def __getstate__(self):
      return (
          self.in_channels, self.out_channels, self.kernel_size, self.stride,
          self.padding, self.dilation, self.transposed, self.output_padding,
          self.groups, self.padding_mode, self.weight(), self.bias,
          self.scale, self.zero_point
      )
  \<close>
\<close>

type_synonym 'pk state_tuple =
  "int \<times> int \<times> int list \<times> int list \<times> int list \<times> int list \<times> bool \<times> int \<times> int \<times> string
   \<times> 'pk pyval \<times> 'pk pyval \<times> real \<times> int"

definition getstate :: "'pk ops \<Rightarrow> ('pk, 'pk state_tuple) py" where
  "getstate ops =
     bnd get_obj (\<lambda>self.
     bnd (weight ops) (\<lambda>w.
     ret (in_channels self, out_channels self, kernel_size self, stride self, padding self,
          dilation self, transposed self, output_padding self, groups self,
          padding_mode self, TensorV w, bias self, scale self, zero_point self)))"

text \<open>The weight entry and the bias entry of the tuple.\<close>

fun state_weight :: "'pk state_tuple \<Rightarrow> 'pk pyval" where
  "state_weight (ic, oc, ks, st, pd, dl, tr, op, g, pm, w, b, sc, zp) = w"

fun state_bias :: "'pk state_tuple \<Rightarrow> 'pk pyval" where
  "state_bias (ic, oc, ks, st, pd, dl, tr, op, g, pm, w, b, sc, zp) = b"

subsection \<open>Deserialization\<close>

text \<open>
  \<open>set_weight\<close> on a value taken from a mapping. \<open>None\<close> has no attribute \<open>permute\<close>;
  for an opaque handle the model lets the call raise.
\<close>

definition set_weight_value :: "'pk ops \<Rightarrow> 'pk pyval \<Rightarrow> ('pk, unit) py" where
  "set_weight_value ops v =
     (case v of
        TensorV t \<Rightarrow> set_weight ops t
      | NoneV \<Rightarrow> raise (AttributeError ''permute'')
      | PackedV p \<Rightarrow> raise RuntimeError)"

text \<open>
  \<^verbatim>\<open>
  def _load_from_state_dict(self, state_dict, prefix, local_metadata, strict,
                            missing_keys, unexpected_keys, error_msgs):
      self.set_weight(state_dict[prefix + 'weight'])
      state_dict.pop(prefix + 'weight')
      self.bias = state_dict[prefix + 'bias']
      state_dict.pop(prefix + 'bias')
      self.scale = float(state_dict[prefix + 'scale'])
      state_dict.pop(prefix + 'scale')
      self.zero_point = int(state_dict[prefix + 'zero_point'])
      state_dict.pop(prefix + 'zero_point')
      super(Conv2d, self)._load_from_state_dict(state_dict, prefix, local_metadata, False,
                                                missing_keys, unexpected_keys, error_msgs)
  \<close>
  The arguments \<open>local_metadata\<close>, \<open>missing_keys\<close>, \<open>unexpected_keys\<close> and \<open>error_msgs\<close>
  are only handed on to the base class; the argument \<open>strict\<close> is not used.
\<close>

definition load_from_state_dict :: "'pk ops \<Rightarrow> string \<Rightarrow> ('pk, unit) py" where
  "load_from_state_dict ops prefix =
     bnd (get_item (prefix @ ''weight'')) (\<lambda>v_weight.
     bnd (set_weight_value ops v_weight) (\<lambda>_.
     bnd (pop_item (prefix @ ''weight'')) (\<lambda>_.
     bnd (get_item (prefix @ ''bias'')) (\<lambda>v_bias.
     bnd (set_attr (\<lambda>self. self\<lparr>bias := v_bias\<rparr>)) (\<lambda>_.
     bnd (pop_item (prefix @ ''bias'')) (\<lambda>_.
     bnd (get_item (prefix @ ''scale'')) (\<lambda>v_scale.
     bnd (lift (py_float v_scale)) (\<lambda>s.
     bnd (set_attr (\<lambda>self. self\<lparr>scale := s\<rparr>)) (\<lambda>_.
     bnd (pop_item (prefix @ ''scale'')) (\<lambda>_.
     bnd (get_item (prefix @ ''zero_point'')) (\<lambda>v_zero_point.
     bnd (lift (py_int v_zero_point)) (\<lambda>z.
     bnd (set_attr (\<lambda>self. self\<lparr>zero_point := z\<rparr>)) (\<lambda>_.
     bnd (pop_item (prefix @ ''zero_point'')) (\<lambda>_.
     super_load_from_state_dict ops prefix False))))))))))))))"

subsection \<open>Conversion from a float module\<close>

text \<open>
  The first part of \<open>from_float\<close>: it selects the module whose weight is converted, the
  weight observer and the activation observer.
  \<^verbatim>\<open>
  if hasattr(mod, 'weight_fake_quant'):
      if type(mod) == nniqat.ConvBn2d:
          mod.weight, mod.bias = \
              fuse_conv_bn_weights(mod.weight, mod.bias, mod.running_mean,
                                   mod.running_var, mod.eps, mod.gamma, mod.beta)
      assert hasattr(mod, 'observer'), 'Input QAT module must have observer attached'
      weight_observer = mod.weight_fake_quant
      activation_observer = mod.observer
  else:
      assert type(mod) == cls._FLOAT_MODULE, ' nnq.' + cls.__name__ + '.from_float only works for ' + \
          cls._FLOAT_MODULE.__name__
      assert hasattr(mod, 'qconfig'), 'Input float module must have qconfig defined'
      if type(mod) == nni.ConvReLU2d:
          activation_observer = mod[1].observer
          mod = mod[0]
      else:
          activation_observer = mod.observer
      weight_observer = mod.qconfig.weight()
      weight_observer(mod.weight)
  \<close>
  Calling the weight observer on the weight adds the weight to what it has seen. The
  variable \<open>mod\<close> of the source is \<open>fmod\<close> here.
\<close>

definition from_float_observers ::
  "'pk ops \<Rightarrow> float_module \<Rightarrow> ('pk, float_module \<times> observer \<times> observer) py" where
  "from_float_observers ops fmod =
     (case mod_weight_fake_quant (attrs fmod) of
        Some weight_fake_quant \<Rightarrow>
          bnd (if mod_type (attrs fmod) = NNIQAT_ConvBn2d
               then
                 bnd (external
                        (FuseConvBnWeights (mod_weight (attrs fmod)) (mod_bias (attrs fmod))
                           (mod_running_mean (attrs fmod)) (mod_running_var (attrs fmod))
                           (mod_eps (attrs fmod)) (mod_gamma (attrs fmod)) (mod_beta (attrs fmod)))
                        (Inr (fuse_conv_bn_weights ops
                           (mod_weight (attrs fmod)) (mod_bias (attrs fmod))
                           (mod_running_mean (attrs fmod)) (mod_running_var (attrs fmod))
                           (mod_eps (attrs fmod)) (mod_gamma (attrs fmod)) (mod_beta (attrs fmod)))))
                     (\<lambda>(w, b).
                 ret (FloatModule ((attrs fmod)\<lparr>mod_weight := w, mod_bias := Some b\<rparr>)
                        (children fmod)))
               else ret fmod) (\<lambda>fmod.
          (case mod_observer (attrs fmod) of
             None \<Rightarrow> raise (AssertionError ''Input QAT module must have observer attached'')
           | Some activation_observer \<Rightarrow>
               ret (fmod, weight_fake_quant, activation_observer)))
      | None \<Rightarrow>
          if mod_type (attrs fmod) \<noteq> NN_Conv2d
          then raise (AssertionError '' nnq.Conv2d.from_float only works for Conv2d'')
          else
          (case mod_qconfig (attrs fmod) of
             None \<Rightarrow> raise (AssertionError ''Input float module must have qconfig defined'')
           | Some _ \<Rightarrow>
          bnd (if mod_type (attrs fmod) = NNI_ConvReLU2d
               then
                 bnd (lift (py_index (children fmod) 1)) (\<lambda>mod1.
                 bnd (case mod_observer (attrs mod1) of
                        None \<Rightarrow> raise (AttributeError ''observer'')
                      | Some activation_observer \<Rightarrow> ret activation_observer)
                     (\<lambda>activation_observer.
                 bnd (lift (py_index (children fmod) 0)) (\<lambda>mod0.
                 ret (mod0, activation_observer))))
               else
                 (case mod_observer (attrs fmod) of
                    None \<Rightarrow> raise (AttributeError ''observer'')
                  | Some activation_observer \<Rightarrow> ret (fmod, activation_observer)))
              (\<lambda>(fmod, activation_observer).
          (case mod_qconfig (attrs fmod) of
             None \<Rightarrow> raise (AttributeError ''qconfig'')
           | Some qconfig \<Rightarrow>
          bnd (external (ObserverCall (qconfig_weight qconfig) (mod_weight (attrs fmod)))
                 (Inr ())) (\<lambda>_.
          ret (fmod,
               (qconfig_weight qconfig)
                 \<lparr>obs_seen := obs_seen (qconfig_weight qconfig) @ [mod_weight (attrs fmod)]\<rparr>,
               activation_observer))))))"

text \<open>
  The second part of \<open>from_float\<close>.
  \<^verbatim>\<open>
  act_scale, act_zp = activation_observer.calculate_qparams()
  assert weight_observer.dtype == torch.qint8, 'Weight observer must have a dtype of qint8'
  wt_scale, wt_zp = weight_observer.calculate_qparams()
  bias_scale = float(act_scale / (2**16))
  qweight = torch.quantize_linear(
      mod.weight.float(),
      float(wt_scale), int(wt_zp), torch.qint8)
  qconv = cls(mod.in_channels, mod.out_channels, mod.kernel_size,
              mod.stride, mod.padding, mod.dilation, mod.groups,
              mod.bias is not None, mod.padding_mode)
  qconv.set_weight(qweight)
  if mod.bias is not None:
      qbias = torch.quantize_linear(mod.bias.float(), bias_scale, 0, torch.qint32)
  else:
      qbias = None
  qconv.bias = qbias
  qconv.scale = float(act_scale)
  qconv.zero_point = int(act_zp)
  return qconv
  \<close>
  \<open>calculate_qparams\<close> gives a scale and a zero point, a real and an integer in the
  model, on which \<open>float\<close> and \<open>int\<close> change nothing.
\<close>

definition from_float :: "'pk ops \<Rightarrow> float_module \<Rightarrow> ('pk, 'pk conv2d) py" where
  "from_float ops fmod0 =
     bnd (from_float_observers ops fmod0) (\<lambda>(fmod, weight_observer, activation_observer).
     bnd (external (CalculateQparams activation_observer)
            (Inr (calculate_qparams ops activation_observer))) (\<lambda>(act_scale, act_zp).
     if obs_dtype weight_observer \<noteq> QInt8
     then raise (AssertionError ''Weight observer must have a dtype of qint8'')
     else
     bnd (external (CalculateQparams weight_observer)
            (Inr (calculate_qparams ops weight_observer))) (\<lambda>(wt_scale, wt_zp).
     bnd (ret (act_scale / 2 ^ 16)) (\<lambda>bias_scale.
     bnd (lift (tensor_float (mod_weight (attrs fmod)))) (\<lambda>weight_real.
     bnd (external (QuantizeLinear weight_real wt_scale wt_zp QInt8)
            (quantize_linear weight_real wt_scale wt_zp QInt8)) (\<lambda>qweight.
     bnd (Conv2d ops (mod_in_channels (attrs fmod)) (mod_out_channels (attrs fmod))
            (mod_kernel_size (attrs fmod)) (mod_stride (attrs fmod)) (mod_padding (attrs fmod))
            (mod_dilation (attrs fmod)) (mod_groups (attrs fmod))
            (mod_bias (attrs fmod) \<noteq> None) (mod_padding_mode (attrs fmod))) (\<lambda>qconv.
     bnd (set_weight ops qweight) (\<lambda>_.
     bnd (case mod_bias (attrs fmod) of
            Some b \<Rightarrow>
              bnd (lift (tensor_float b)) (\<lambda>bias_real.
              bnd (external (QuantizeLinear bias_real bias_scale 0 QInt32)
                     (quantize_linear bias_real bias_scale 0 QInt32)) (\<lambda>qbias.
              ret (TensorV qbias)))
          | None \<Rightarrow> ret NoneV) (\<lambda>qbias.
     bnd (set_attr (\<lambda>qconv. qconv\<lparr>bias := qbias\<rparr>)) (\<lambda>_.
     bnd (set_attr (\<lambda>qconv. qconv\<lparr>scale := act_scale\<rparr>)) (\<lambda>_.
     bnd (set_attr (\<lambda>qconv. qconv\<lparr>zero_point := act_zp\<rparr>)) (\<lambda>_.
     get_obj))))))))))))"

text \<open>
  The calls that quantize a tensor or belong to the construction of a module (the
  allocation of its placeholder tensors, the packing of its weight).
\<close>

fun quantizes_or_constructs :: "'pk call \<Rightarrow> bool" where
  "quantizes_or_constructs (QuantizeLinear x s z dt) = True"
| "quantizes_or_constructs (EmptyAffineQuantized ns s z dt) = True"
| "quantizes_or_constructs (ConvPrepack w st pd dl g) = True"
| "quantizes_or_constructs c = False"

section \<open>Example objects\<close>

text \<open>
  A backend whose packed form is the tensor itself: packing keeps the tensor, unpacking
  gives it back, the kernel returns its input. Its observers report the scale one half
  and the zero point three.
\<close>

definition contiguous_strides :: "nat list \<Rightarrow> nat list" where
  "contiguous_strides ns = map (\<lambda>i. prod_list (drop (Suc i) ns)) [0..<length ns]"

definition store_ops :: "tensor ops" where
  "store_ops =
     \<lparr>empty_affine_quantized = (\<lambda>ns s z dt.
        if list_all (\<lambda>n. 0 \<le> n) ns
        then Inr \<lparr>dtype = dt, sizes = map nat ns, strides = contiguous_strides (map nat ns),
                  storage = IntStorage (replicate (prod_list (map nat ns)) 0),
                  qscale = s, qzero = z\<rparr>
        else Inl RuntimeError),
      conv_prepack = (\<lambda>x st pd dl g. Inr x),
      conv_unpack = (\<lambda>p. Inr p),
      conv2d_kernel = (\<lambda>args. Inr (arg_input args)),
      fuse_conv_bn_weights = (\<lambda>w b rm rv eps gamma beta. (w, beta)),
      calculate_qparams = (\<lambda>obs. (1 / 2, 3)),
      module_save_to_state_dict = (\<lambda>d prefix keep_vars. d),
      module_load_from_state_dict = (\<lambda>d prefix strict. d)\<rparr>"

definition example_weight :: tensor where
  "example_weight =
     \<lparr>dtype = QInt8, sizes = [2, 3, 1, 1], strides = [3, 1, 1, 1],
      storage = IntStorage [1, - 2, 3, - 4, 5, - 6], qscale = 1 / 4, qzero = 0\<rparr>"

definition example_module :: "tensor conv2d" where
  "example_module =
     \<lparr>in_channels = 3, out_channels = 2, kernel_size = [1, 1], stride = [1, 1],
      padding = [0, 0], dilation = [1, 1], transposed = False, output_padding = 0,
      groups = 1, padding_mode = ''zeros'', packed_weight = None, weight_scale = 1,
      bias = NoneV, scale = 1, zero_point = 0\<rparr>"

definition example_world :: "tensor world" where
  "example_world = \<lparr>obj = example_module, dict = Map.empty, calls = []\<rparr>"

definition example_input3 :: tensor where
  "example_input3 =
     \<lparr>dtype = QUInt8, sizes = [1, 2, 2], strides = [4, 2, 1],
      storage = IntStorage [1, 2, 3, 4], qscale = 1 / 2, qzero = 0\<rparr>"

definition example_bias :: tensor where
  "example_bias =
     \<lparr>dtype = QInt32, sizes = [1], strides = [1], storage = IntStorage [20],
      qscale = 1 / 2, qzero = 0\<rparr>"

definition example_bias_real :: tensor where
  "example_bias_real =
     \<lparr>dtype = Float, sizes = [1], strides = [1], storage = RealStorage [10],
      qscale = 1, qzero = 0\<rparr>"

definition example_input :: tensor where
  "example_input =
     \<lparr>dtype = QUInt8, sizes = [1, 3, 1, 1], strides = [3, 1, 1, 1],
      storage = IntStorage [7, 8, 9], qscale = 1 / 2, qzero = 0\<rparr>"

text \<open>A module that holds a packed weight and a bias, with the weight scale 0.01.\<close>

definition example_loaded_world :: "tensor world" where
  "example_loaded_world =
     \<lparr>obj = example_module
        \<lparr>packed_weight := Some (example_weight\<lparr>sizes := [2, 1, 1, 3], strides := [3, 1, 1, 1]\<rparr>),
         weight_scale := 1 / 100, bias := TensorV example_bias\<rparr>,
      dict = Map.empty, calls = []\<rparr>"

text \<open>The module that the constructor makes on this backend.\<close>

definition example_constructed :: "tensor world" where
  "example_constructed =
     snd (Conv2d store_ops 3 2 (IntArg 1) (IntArg 1) (IntArg 0) (IntArg 1) 1 True ''zeros''
            example_world)"

text \<open>
  A state dictionary with the four entries of the module under the prefix \<open>conv.\<close> and
  an entry of another module; the same module with this dictionary, and with the
  dictionary without the bias entry.
\<close>

definition example_state_dict :: "string \<rightharpoonup> tensor pyval" where
  "example_state_dict =
     [''conv.weight'' \<mapsto> TensorV example_weight,
      ''conv.bias'' \<mapsto> NoneV,
      ''conv.scale'' \<mapsto> TensorV (torch_tensor_real (1 / 2)),
      ''conv.zero_point'' \<mapsto> TensorV (torch_tensor_int 3),
      ''fc.weight'' \<mapsto> TensorV example_bias]"

definition example_load_world :: "tensor world" where
  "example_load_world = example_constructed\<lparr>dict := example_state_dict\<rparr>"

definition example_partial_world :: "tensor world" where
  "example_partial_world =
     example_constructed\<lparr>dict := example_state_dict(''conv.bias'' := None)\<rparr>"

text \<open>
  A calibrated float convolution with a bias, the same with a weight observer configured
  for \<open>quint8\<close>, and the module that \<open>from_float\<close> makes of the first.
\<close>

definition example_float_weight :: tensor where
  "example_float_weight =
     \<lparr>dtype = Float, sizes = [2, 3, 1, 1], strides = [3, 1, 1, 1],
      storage = RealStorage [1, - 1, 2, - 2, 3, - 3], qscale = 1, qzero = 0\<rparr>"

definition example_float_bias :: tensor where
  "example_float_bias =
     \<lparr>dtype = Float, sizes = [2], strides = [1],
      storage = RealStorage [1 / 2, - 1 / 4], qscale = 1, qzero = 0\<rparr>"

definition example_attrs :: float_attrs where
  "example_attrs =
     \<lparr>mod_type = NN_Conv2d, mod_weight_fake_quant = None,
      mod_observer = Some \<lparr>obs_dtype = QUInt8, obs_seen = []\<rparr>,
      mod_qconfig = Some \<lparr>qconfig_weight = \<lparr>obs_dtype = QInt8, obs_seen = []\<rparr>\<rparr>,
      mod_weight = example_float_weight, mod_bias = Some example_float_bias,
      mod_running_mean = example_float_bias, mod_running_var = example_float_bias,
      mod_eps = 0, mod_gamma = example_float_bias, mod_beta = example_float_bias,
      mod_in_channels = 3, mod_out_channels = 2, mod_kernel_size = TupleArg [1, 1],
      mod_stride = TupleArg [1, 1], mod_padding = TupleArg [0, 0],
      mod_dilation = TupleArg [1, 1], mod_groups = 1, mod_padding_mode = ''zeros''\<rparr>"

definition example_float :: float_module where
  "example_float = FloatModule example_attrs []"


definition example_float_quint8 :: float_module where
  "example_float_quint8 =
     FloatModule
       (example_attrs\<lparr>mod_qconfig :=
          Some \<lparr>qconfig_weight = \<lparr>obs_dtype = QUInt8, obs_seen = []\<rparr>\<rparr>\<rparr>) []"

definition example_converted :: "tensor conv2d" where
  "example_converted =
     \<lparr>in_channels = 3, out_channels = 2, kernel_size = [1, 1], stride = [1, 1],
      padding = [0, 0], dilation = [1, 1], transposed = False, output_padding = 0,
      groups = 1, padding_mode = ''zeros'',
      packed_weight =
        Some \<lparr>dtype = QInt8, sizes = [2, 1, 1, 3], strides = [3, 1, 1, 1],
              storage = IntStorage [5, 1, 7, - 1, 9, - 3], qscale = 1 / 2, qzero = 3\<rparr>,
      weight_scale = 1 / 2,
      bias =
        TensorV \<lparr>dtype = QInt32, sizes = [2], strides = [1],
                 storage = IntStorage [65536, - 32768], qscale = 1 / 131072, qzero = 0\<rparr>,
      scale = 1 / 2, zero_point = 3\<rparr>"


section \<open>Properties\<close>

subsection \<open>Statements\<close>

lemmas py_defs = bnd_def ret_def raise_def lift_def get_obj_def set_attr_def record_call_def
  external_def get_packed_weight_def

lemmas dict_defs = set_item_def get_item_def pop_item_def super_save_to_state_dict_def
  super_load_from_state_dict_def

lemma bnd_Inr: "m s = (Inr x, s1) \<Longrightarrow> bnd m f s = f x s1"
  by (simp add: bnd_def)

lemma bnd_Inl: "m s = (Inl e, s1) \<Longrightarrow> bnd m f s = (Inl e, s1)"
  by (simp add: bnd_def)

lemma bnd_returns:
  "bnd m f s = (Inr y, s') \<Longrightarrow> \<exists>x s1. m s = (Inr x, s1) \<and> f x s1 = (Inr y, s')"
  by (auto simp: bnd_def split: prod.splits sum.splits)

lemma bnd_post:
  assumes "bnd m f s = (Inr y, s')"
      and "\<And>x s1. f x s1 = (Inr y, s') \<Longrightarrow> P"
  shows P
  using assms by (blast dest: bnd_returns)

lemma if_raise_post:
  assumes "(if c then raise e else m) s = (Inr y, s')"
      and "m s = (Inr y, s') \<Longrightarrow> P"
  shows P
  using assms by (simp add: raise_def split: if_splits)

subsection \<open>Permutations\<close>

lemma list4: "length xs = 4 \<Longrightarrow> \<exists>a b c d. xs = [a, b, c, d]"
  by (auto simp: eval_nat_numeral length_Suc_conv)

lemma permute_roundtrip:
  assumes "length (sizes w) = 4" "length (strides w) = 4"
      and "permute [0, 2, 3, 1] w = Inr wn"
  shows "permute [0, 3, 1, 2] wn = Inr w"
proof -
  obtain a b c d where s: "sizes w = [a, b, c, d]" using list4[OF assms(1)] by blast
  obtain a' b' c' d' where t: "strides w = [a', b', c', d']" using list4[OF assms(2)] by blast
  from assms(3) have wn: "wn = w\<lparr>sizes := [a, c, d, b], strides := [a', c', d', b']\<rparr>"
    by (simp add: permute_def is_axis_permutation_def s t)
  show ?thesis
    by (simp add: wn permute_def is_axis_permutation_def s t)
qed

text \<open>
  The permuted view reads the same storage: its element at \<open>[n, h, w, c]\<close> is the
  element of the tensor at \<open>[n, c, h, w]\<close>.
\<close>

lemma permute_nhwc_offset:
  assumes "length (sizes w) = 4" "length (strides w) = 4"
      and "permute [0, 2, 3, 1] w = Inr wn"
  shows "sizes wn = [sizes w ! 0, sizes w ! 2, sizes w ! 3, sizes w ! 1]
         \<and> storage_offset wn [n, h, x, c] = storage_offset w [n, c, h, x]
         \<and> storage wn = storage w \<and> qscale wn = qscale w \<and> qzero wn = qzero w"
proof -
  obtain a b c' d where t: "strides w = [a, b, c', d]" using list4[OF assms(2)] by blast
  from assms(1,3) have wn: "wn = w\<lparr>sizes := map (\<lambda>d. sizes w ! d) [0, 2, 3, 1],
                                  strides := map (\<lambda>d. strides w ! d) [0, 2, 3, 1]\<rparr>"
    by (simp add: permute_def is_axis_permutation_def t split: if_splits)
  show ?thesis
    by (simp add: wn storage_offset_def t)
qed

text \<open>
  Claim C1. For a quantized tensor \<open>w\<close> with four axes that the backend accepts for the
  configuration of the module, \<open>set_weight(w)\<close> returns and \<open>weight()\<close> then returns \<open>w\<close>
  itself (storage, sizes, strides and QuantParams), provided \<open>conv_unpack\<close> gives back
  what \<open>conv_prepack\<close> was given. The cached \<open>weight_scale\<close> is the scale of \<open>w\<close>, and
  the permutation \<open>[0, 3, 1, 2]\<close> undoes the permutation \<open>[0, 2, 3, 1]\<close>.
\<close>

theorem set_weight_then_weight:
  assumes rank: "length (sizes w) = 4" "length (strides w) = 4"
      and quant: "is_quantized w"
      and nhwc: "permute [0, 2, 3, 1] w = Inr w_nhwc"
      and accepted: "conv_prepack ops w_nhwc (stride (obj s)) (padding (obj s))
                       (dilation (obj s)) (groups (obj s)) = Inr p"
      and inverse: "\<forall>x st pd dl g pk. conv_prepack ops x st pd dl g = Inr pk
                      \<longrightarrow> conv_unpack ops pk = Inr x"
  shows "fst (set_weight ops w s) = Inr ()
         \<and> fst (weight ops (snd (set_weight ops w s))) = Inr w
         \<and> weight_scale (obj (snd (set_weight ops w s))) = qscale w
         \<and> permute [0, 3, 1, 2] w_nhwc = Inr w"
proof -
  have inv_perm: "permute [0, 3, 1, 2] w_nhwc = Inr w"
    using permute_roundtrip[OF rank nhwc] .
  have unpack: "conv_unpack ops p = Inr w_nhwc"
    using inverse accepted by blast
  have sw: "set_weight ops w s =
              (Inr (), s\<lparr>calls := calls s @ [ConvPrepack w_nhwc (stride (obj s)) (padding (obj s))
                                           (dilation (obj s)) (groups (obj s))],
                        obj := (obj s)\<lparr>packed_weight := Some p, weight_scale := qscale w\<rparr>\<rparr>)"
    using quant nhwc accepted by (simp add: set_weight_def py_defs q_scale_def)
  show ?thesis
    using unpack inv_perm by (simp add: sw weight_def py_defs)
qed

theorem set_weight_then_weight_witness:
  "length (sizes example_weight) = 4 \<and> length (strides example_weight) = 4
   \<and> is_quantized example_weight
   \<and> fst (set_weight store_ops example_weight example_world) = Inr ()
   \<and> fst (weight store_ops (snd (set_weight store_ops example_weight example_world)))
       = Inr example_weight"
proof -
  have rank: "length (sizes example_weight) = 4" "length (strides example_weight) = 4"
    by (simp_all add: example_weight_def)
  have quant: "is_quantized example_weight"
    by (simp add: example_weight_def is_quantized_def)
  have nhwc: "permute [0, 2, 3, 1] example_weight =
          Inr (example_weight\<lparr>sizes := [2, 1, 1, 3], strides := [3, 1, 1, 1]\<rparr>)"
    by (simp add: permute_def is_axis_permutation_def example_weight_def)
  have accepted: "conv_prepack store_ops
          (example_weight\<lparr>sizes := [2, 1, 1, 3], strides := [3, 1, 1, 1]\<rparr>)
          (stride (obj example_world)) (padding (obj example_world))
          (dilation (obj example_world)) (groups (obj example_world))
        = Inr (example_weight\<lparr>sizes := [2, 1, 1, 3], strides := [3, 1, 1, 1]\<rparr>)"
    by (simp add: store_ops_def)
  have inverse: "\<forall>x st pd dl g pk. conv_prepack store_ops x st pd dl g = Inr pk
                      \<longrightarrow> conv_unpack store_ops pk = Inr x"
    by (simp add: store_ops_def)
  show ?thesis
    using set_weight_then_weight[OF rank quant nhwc accepted inverse] rank quant by simp
qed

subsection \<open>Forward\<close>

text \<open>
  Claim C6. On an input whose number of axes is not four, \<open>forward\<close> raises the
  \<open>ValueError\<close> of its shape check and leaves the state as it was: the module object is
  unchanged and no call is recorded, neither of the kernel nor of the requantization of
  the bias.
\<close>

theorem forward_rejects_rank:
  assumes "length (sizes input) \<noteq> 4"
  shows "forward ops input s = (Inl (ValueError ''Input shape must be `(N, C, H, W)`!''), s)"
  using assms by (simp add: forward_def raise_def)

theorem forward_rejects_rank_witness:
  "length (sizes example_input3) \<noteq> 4
   \<and> forward store_ops example_input3 example_world
       = (Inl (ValueError ''Input shape must be `(N, C, H, W)`!''), example_world)"
proof -
  have r: "length (sizes example_input3) \<noteq> 4" by (simp add: example_input3_def)
  show ?thesis using forward_rejects_rank[OF r] r by simp
qed

lemma dequantize_result:
  assumes "dequantize b = Inr b_real"
  shows "dtype b_real = Float \<and> (\<exists>rs. storage b_real = RealStorage rs)"
  using assms by (auto simp: dequantize_def split: storage.splits if_splits)

text \<open>
  Claim C3. When the module holds a quantized bias and \<open>forward\<close> reaches the kernel (the
  input is a quantized tensor with four axes, the packed weight has been set), the calls
  it makes are: the dequantization of the stored bias, the quantization of the result
  with the scale \<open>weight_scale * input.q_scale()\<close>, the zero point 0 and the dtype
  \<open>qint32\<close>, and the kernel with the tensor so obtained as its bias. In particular, with
  the weight scale 0.01, the input scale 0.5 and a stored bias that dequantizes to 10.0,
  that tensor has the scale 0.005 and the integer value \<open>round (10.0 / 0.005)\<close>.
\<close>

theorem forward_requantizes_bias:
  assumes rank: "length (sizes input) = 4" "length (strides input) = 4"
      and quant: "is_quantized input"
      and stored: "bias (obj s) = TensorV b" "dequantize b = Inr b_real"
      and packed: "packed_weight (obj s) = Some p"
  shows "\<exists>b_q input_nhwc.
           quantize_linear b_real (weight_scale (obj s) * qscale input) 0 QInt32 = Inr b_q
         \<and> permute [0, 2, 3, 1] input = Inr input_nhwc
         \<and> calls (snd (forward ops input s)) =
             calls s @
             [Dequantize b,
              QuantizeLinear b_real (weight_scale (obj s) * qscale input) 0 QInt32,
              Conv2dKernel
                \<lparr>arg_input = input_nhwc, arg_packed_weight = p, arg_bias = TensorV b_q,
                 arg_stride = stride (obj s), arg_padding = padding (obj s),
                 arg_dilation = dilation (obj s), arg_groups = groups (obj s),
                 arg_scale = scale (obj s), arg_zero_point = zero_point (obj s)\<rparr>]
         \<and> qscale b_q = weight_scale (obj s) * qscale input
         \<and> qzero b_q = 0
         \<and> dtype b_q = QInt32
         \<and> (weight_scale (obj s) = 1 / 100 \<and> qscale input = 1 / 2
              \<and> storage b_real = RealStorage [10]
            \<longrightarrow> qscale b_q = 5 / 1000
                \<and> storage b_q = IntStorage [round (10 / (5 / 1000) :: real)])"
proof -
  obtain rs where fl: "dtype b_real = Float" and rs: "storage b_real = RealStorage rs"
    using dequantize_result[OF stored(2)] by blast
  define b_q where "b_q =
    \<lparr>dtype = QInt32, sizes = sizes b_real, strides = strides b_real,
     storage = IntStorage
       (map (\<lambda>r. clamp_to QInt32 (round (r / (weight_scale (obj s) * qscale input)) + 0)) rs),
     qscale = weight_scale (obj s) * qscale input, qzero = 0\<rparr>"
  have q: "quantize_linear b_real (weight_scale (obj s) * qscale input) 0 QInt32 = Inr b_q"
    by (simp add: quantize_linear_def fl rs b_q_def)
  define input_nhwc where "input_nhwc =
    input\<lparr>sizes := map (\<lambda>d. sizes input ! d) [0, 2, 3, 1],
          strides := map (\<lambda>d. strides input ! d) [0, 2, 3, 1]\<rparr>"
  have n: "permute [0, 2, 3, 1] input = Inr input_nhwc"
    using rank by (simp add: permute_def is_axis_permutation_def input_nhwc_def)
  have c: "calls (snd (forward ops input s)) =
             calls s @
             [Dequantize b,
              QuantizeLinear b_real (weight_scale (obj s) * qscale input) 0 QInt32,
              Conv2dKernel
                \<lparr>arg_input = input_nhwc, arg_packed_weight = p, arg_bias = TensorV b_q,
                 arg_stride = stride (obj s), arg_padding = padding (obj s),
                 arg_dilation = dilation (obj s), arg_groups = groups (obj s),
                 arg_scale = scale (obj s), arg_zero_point = zero_point (obj s)\<rparr>]"
    using rank quant stored packed q n
    by (simp add: forward_def py_defs q_scale_def split: sum.splits)
  have ex: "weight_scale (obj s) = 1 / 100 \<and> qscale input = 1 / 2
              \<and> storage b_real = RealStorage [10]
            \<longrightarrow> qscale b_q = 5 / 1000
                \<and> storage b_q = IntStorage [round (10 / (5 / 1000) :: real)]"
  proof (intro impI, elim conjE)
    assume a: "weight_scale (obj s) = 1 / 100" "qscale input = 1 / 2"
      and st: "storage b_real = RealStorage [10]"
    have rs10: "rs = [10]" using st rs by simp
    have r: "round (10 / (5 / 1000) :: real) = 2000" by simp
    show "qscale b_q = 5 / 1000 \<and> storage b_q = IntStorage [round (10 / (5 / 1000) :: real)]"
      unfolding r by (simp add: b_q_def a rs10 clamp_to_def)
  qed
  show ?thesis
    using q n c ex by (intro exI[of _ b_q] exI[of _ input_nhwc]) (simp add: b_q_def)
qed

theorem forward_requantizes_bias_witness:
  "length (sizes example_input) = 4 \<and> length (strides example_input) = 4
   \<and> is_quantized example_input
   \<and> bias (obj example_loaded_world) = TensorV example_bias
   \<and> dequantize example_bias = Inr example_bias_real
   \<and> weight_scale (obj example_loaded_world) = 1 / 100 \<and> qscale example_input = 1 / 2
   \<and> storage example_bias_real = RealStorage [10]
   \<and> (\<exists>b_q. quantize_linear example_bias_real
                 (weight_scale (obj example_loaded_world) * qscale example_input) 0 QInt32
               = Inr b_q
             \<and> qscale b_q = 5 / 1000 \<and> storage b_q = IntStorage [2000])"
proof -
  have rank: "length (sizes example_input) = 4" "length (strides example_input) = 4"
    by (simp_all add: example_input_def)
  have quant: "is_quantized example_input"
    by (simp add: example_input_def is_quantized_def)
  have stored: "bias (obj example_loaded_world) = TensorV example_bias"
    by (simp add: example_loaded_world_def)
  have deq: "dequantize example_bias = Inr example_bias_real"
    by (simp add: dequantize_def example_bias_def example_bias_real_def is_quantized_def)
  have packed: "packed_weight (obj example_loaded_world)
                = Some (example_weight\<lparr>sizes := [2, 1, 1, 3], strides := [3, 1, 1, 1]\<rparr>)"
    by (simp add: example_loaded_world_def)
  have vals: "weight_scale (obj example_loaded_world) = 1 / 100"
    "qscale example_input = 1 / 2" "storage example_bias_real = RealStorage [10]"
    by (simp_all add: example_loaded_world_def example_input_def example_bias_real_def)
  have r: "round (10 / (5 / 1000) :: real) = 2000" by simp
  from forward_requantizes_bias[OF rank quant stored deq packed, of store_ops]
  obtain b_q where
    "quantize_linear example_bias_real
       (weight_scale (obj example_loaded_world) * qscale example_input) 0 QInt32 = Inr b_q"
    "qscale b_q = 5 / 1000" "storage b_q = IntStorage [round (10 / (5 / 1000) :: real)]"
    using vals by blast
  then have "\<exists>b_q. quantize_linear example_bias_real
                 (weight_scale (obj example_loaded_world) * qscale example_input) 0 QInt32
               = Inr b_q
             \<and> qscale b_q = 5 / 1000 \<and> storage b_q = IntStorage [2000]"
    unfolding r by blast
  then show ?thesis
    using rank quant stored deq vals by blast
qed

subsection \<open>Construction\<close>

lemma init_rejects:
  assumes "padding_mode' \<noteq> ''zeros''
           \<or> groups' \<noteq> 0 \<and> (in_channels' mod groups' \<noteq> 0 \<or> out_channels' mod groups' \<noteq> 0)"
  shows "init ops in_channels' out_channels' kernel_size' stride' padding' dilation' groups'
           bias' padding_mode' s =
         (Inl (if padding_mode' \<noteq> ''zeros''
               then NotImplementedError
                      ''Currently only zero-padding is supported by quantized conv''
               else if in_channels' mod groups' \<noteq> 0
               then ValueError ''in_channels must be divisible by groups''
               else ValueError ''out_channels must be divisible by groups''), s)"
  using assms by (auto simp: init_def py_defs py_mod_def)

text \<open>
  Claim C8, as amended. When the padding mode is not \<open>zeros\<close>, or the number of groups is
  not zero and does not divide the input channels or the output channels, \<open>__init__\<close>
  raises \<open>NotImplementedError\<close> (padding mode) or \<open>ValueError\<close> (divisibility) and leaves
  the state as it was: no attribute is assigned and no call is recorded, so no tensor has
  been allocated, and the constructor call gives no module.
\<close>

theorem construction_rejects_config:
  assumes "padding_mode' \<noteq> ''zeros''
           \<or> groups' \<noteq> 0 \<and> (in_channels' mod groups' \<noteq> 0 \<or> out_channels' mod groups' \<noteq> 0)"
  shows "\<exists>e. e \<in> {NotImplementedError
                     ''Currently only zero-padding is supported by quantized conv'',
                   ValueError ''in_channels must be divisible by groups'',
                   ValueError ''out_channels must be divisible by groups''}
          \<and> init ops in_channels' out_channels' kernel_size' stride' padding' dilation' groups'
                bias' padding_mode' s = (Inl e, s)
          \<and> fst (Conv2d ops in_channels' out_channels' kernel_size' stride' padding' dilation'
                    groups' bias' padding_mode' s) = Inl e
          \<and> calls (snd (Conv2d ops in_channels' out_channels' kernel_size' stride' padding'
                           dilation' groups' bias' padding_mode' s)) = calls s"
proof -
  let ?e = "if padding_mode' \<noteq> ''zeros''
            then NotImplementedError
                   ''Currently only zero-padding is supported by quantized conv''
            else if in_channels' mod groups' \<noteq> 0
            then ValueError ''in_channels must be divisible by groups''
            else ValueError ''out_channels must be divisible by groups''"
  have i: "\<And>s. init ops in_channels' out_channels' kernel_size' stride' padding' dilation'
            groups' bias' padding_mode' s = (Inl ?e, s)"
    by (rule init_rejects[OF assms])
  have c: "Conv2d ops in_channels' out_channels' kernel_size' stride' padding' dilation'
             groups' bias' padding_mode' s = (Inl ?e, s\<lparr>obj := fresh_object\<rparr>)"
    by (simp add: Conv2d_def bnd_def set_attr_def i)
  have m: "?e \<in> {NotImplementedError
                     ''Currently only zero-padding is supported by quantized conv'',
                   ValueError ''in_channels must be divisible by groups'',
                   ValueError ''out_channels must be divisible by groups''}"
    by simp
  show ?thesis
    using i[of s] c m by (intro exI[of _ ?e]) simp
qed

theorem construction_rejects_config_witness:
  "\<exists>e. init store_ops 10 9 (IntArg 3) (IntArg 1) (IntArg 0) (IntArg 1) 3 True ''zeros''
          example_world = (Inl e, example_world)"
proof -
  have h: "''zeros'' \<noteq> ''zeros''
           \<or> (3::int) \<noteq> 0 \<and> ((10::int) mod 3 \<noteq> 0 \<or> (9::int) mod 3 \<noteq> 0)"
    by simp
  show ?thesis
    using construction_rejects_config[OF h, of store_ops "IntArg 3" "IntArg 1" "IntArg 0"
        "IntArg 1" True example_world]
    by blast
qed

text \<open>
  With zero groups and the padding mode \<open>zeros\<close>, the remainder \<open>in_channels % groups\<close>
  raises \<open>ZeroDivisionError\<close>: ten input channels are not divisible by zero groups, and
  the exception is neither of the two that the checks raise.
\<close>

theorem construction_zero_groups_counterexample:
  "\<not> (0::int) dvd 10
   \<and> fst (Conv2d store_ops 10 10 (IntArg 3) (IntArg 1) (IntArg 0) (IntArg 1) 0 True ''zeros''
            example_world) = Inl ZeroDivisionError"
  by (simp add: Conv2d_def init_def py_defs py_mod_def)

text \<open>A module that the constructor returns has a bias that is \<open>None\<close> or a tensor.\<close>

lemma init_tail_bias:
  assumes "bnd (if bias'
          then bnd (external (EmptyAffineQuantized [oc] 1 0 QInt32)
                      (empty_affine_quantized ops [oc] 1 0 QInt32))
                 (\<lambda>b. set_attr (\<lambda>self. self\<lparr>bias := TensorV b\<rparr>))
          else set_attr (\<lambda>self. self\<lparr>bias := NoneV\<rparr>)) (\<lambda>_.
     bnd (set_attr (\<lambda>self. self\<lparr>scale := 1\<rparr>)) (\<lambda>_.
     set_attr (\<lambda>self. self\<lparr>zero_point := 0\<rparr>))) s = (Inr u, s')"
  shows "\<not> is_packed (bias (obj s'))"
  using assms
  by (auto simp: bnd_def external_def record_call_def lift_def ret_def raise_def set_attr_def
      split: prod.splits sum.splits if_splits)

lemma init_bias_not_packed:
  assumes "init ops ic oc ks st pd dl g bias' pm s = (Inr u, s')"
  shows "\<not> is_packed (bias (obj s'))"
  using assms unfolding init_def
  apply -
  apply (erule if_raise_post)
  apply (erule bnd_post)
  apply (erule if_raise_post)
  apply (erule bnd_post)
  apply (erule if_raise_post)
  apply (erule bnd_post, erule bnd_post, erule bnd_post, erule bnd_post, erule bnd_post)
  apply (erule bnd_post, erule bnd_post, erule bnd_post, erule bnd_post, erule bnd_post)
  apply (erule bnd_post, erule bnd_post, erule bnd_post, erule bnd_post, erule bnd_post)
  apply (erule bnd_post, erule bnd_post)
  apply (erule init_tail_bias)
  done

lemma Conv2d_bias_not_packed:
  assumes "Conv2d ops ic oc ks st pd dl g bias' pm s = (Inr q, s')"
  shows "q = obj s' \<and> \<not> is_packed (bias q)"
proof -
  from assms obtain s1 where
    i: "init ops ic oc ks st pd dl g bias' pm (s\<lparr>obj := fresh_object\<rparr>) = (Inr (), s1)"
    and g: "get_obj s1 = (Inr q, s')"
    by (auto simp: Conv2d_def bnd_def set_attr_def split: prod.splits sum.splits)
  from g have "q = obj s'" "s' = s1" by (auto simp: get_obj_def)
  then show ?thesis using init_bias_not_packed[OF i] by simp
qed

subsection \<open>Serialization\<close>

lemma weight_frame:
  "weight ops s = (r, s') \<Longrightarrow> obj s' = obj s \<and> dict s' = dict s"
  by (auto simp: weight_def py_defs split: option.splits sum.splits prod.splits)

lemma weight_fst_obj:
  "obj s = obj s0 \<Longrightarrow> fst (weight ops s) = fst (weight ops s0)"
  by (auto simp: weight_def py_defs split: option.splits sum.splits prod.splits)

lemma set_weight_dict:
  "set_weight ops t s = (r, s1) \<Longrightarrow> dict s1 = dict s"
  by (auto simp: set_weight_def py_defs split: option.splits sum.splits prod.splits)

text \<open>
  What \<open>__getstate__\<close> and \<open>_save_to_state_dict\<close> give whenever they return.
\<close>

lemma serialized_state_when_returns:
  assumes "\<not> is_packed (bias (obj s))"
  shows "(\<forall>st s'. getstate ops s = (Inr st, s') \<longrightarrow>
            (\<exists>w. fst (weight ops s) = Inr w
               \<and> st = (in_channels (obj s), out_channels (obj s), kernel_size (obj s),
                       stride (obj s), padding (obj s), dilation (obj s), transposed (obj s),
                       output_padding (obj s), groups (obj s), padding_mode (obj s),
                       TensorV w, bias (obj s), scale (obj s), zero_point (obj s)))
             \<and> \<not> is_packed (state_weight st) \<and> \<not> is_packed (state_bias st))
       \<and> (\<forall>s'. save_to_state_dict ops prefix keep_vars s = (Inr (), s') \<longrightarrow>
            (\<exists>w. fst (weight ops s) = Inr w
               \<and> dict s' =
                   (module_save_to_state_dict ops (dict s) prefix keep_vars)
                     (prefix @ ''weight'' \<mapsto> TensorV w,
                      prefix @ ''scale'' \<mapsto> TensorV (torch_tensor_real (scale (obj s))),
                      prefix @ ''zero_point'' \<mapsto> TensorV (torch_tensor_int (zero_point (obj s))),
                      prefix @ ''bias'' \<mapsto> bias (obj s)))
             \<and> (\<forall>k \<in> {prefix @ ''weight'', prefix @ ''scale'', prefix @ ''zero_point'',
                        prefix @ ''bias''}.
                  \<forall>v. dict s' k = Some v \<longrightarrow> \<not> is_packed v))"
proof (intro conjI allI impI)
  fix st s'
  assume g: "getstate ops s = (Inr st, s')"
  then obtain w where w: "weight ops s = (Inr w, s')"
    and st: "st = (in_channels (obj s), out_channels (obj s), kernel_size (obj s),
                       stride (obj s), padding (obj s), dilation (obj s), transposed (obj s),
                       output_padding (obj s), groups (obj s), padding_mode (obj s),
                       TensorV w, bias (obj s), scale (obj s), zero_point (obj s))"
    by (auto simp: getstate_def bnd_def get_obj_def ret_def split: prod.splits sum.splits)
  show "\<exists>w. fst (weight ops s) = Inr w
               \<and> st = (in_channels (obj s), out_channels (obj s), kernel_size (obj s),
                       stride (obj s), padding (obj s), dilation (obj s), transposed (obj s),
                       output_padding (obj s), groups (obj s), padding_mode (obj s),
                       TensorV w, bias (obj s), scale (obj s), zero_point (obj s))"
    using w st by auto
  show "\<not> is_packed (state_weight st)" by (simp add: st)
  show "\<not> is_packed (state_bias st)" using assms by (simp add: st)
next
  fix s'
  assume sv: "save_to_state_dict ops prefix keep_vars s = (Inr (), s')"
  define s0 where "s0 = s\<lparr>dict := module_save_to_state_dict ops (dict s) prefix keep_vars,
                          calls := calls s @ [ModuleSaveToStateDict (dict s) prefix keep_vars]\<rparr>"
  have sup: "super_save_to_state_dict ops prefix keep_vars s = (Inr (), s0)"
    by (simp add: super_save_to_state_dict_def s0_def)
  from sv obtain w s1 where w: "weight ops s0 = (Inr w, s1)"
    and rest: "bnd (set_item (prefix @ ''weight'') (TensorV w)) (\<lambda>_.
     bnd get_obj (\<lambda>self.
     bnd (set_item (prefix @ ''scale'') (TensorV (torch_tensor_real (scale self)))) (\<lambda>_.
     bnd (set_item (prefix @ ''zero_point'') (TensorV (torch_tensor_int (zero_point self))))
         (\<lambda>_.
     set_item (prefix @ ''bias'') (bias self))))) s1 = (Inr (), s')"
    unfolding save_to_state_dict_def
      bnd_Inr[where m = "super_save_to_state_dict ops prefix keep_vars" and s = s, OF sup]
    by (blast dest: bnd_returns)
  have fr: "obj s1 = obj s" "dict s1 = module_save_to_state_dict ops (dict s) prefix keep_vars"
    using weight_frame[OF w] by (simp_all add: s0_def)
  have fw: "fst (weight ops s) = Inr w"
    using weight_fst_obj[of s0 s ops] w by (simp add: s0_def)
  have d: "dict s' =
                   (module_save_to_state_dict ops (dict s) prefix keep_vars)
                     (prefix @ ''weight'' \<mapsto> TensorV w,
                      prefix @ ''scale'' \<mapsto> TensorV (torch_tensor_real (scale (obj s))),
                      prefix @ ''zero_point'' \<mapsto> TensorV (torch_tensor_int (zero_point (obj s))),
                      prefix @ ''bias'' \<mapsto> bias (obj s))"
    using rest fr by (auto simp: bnd_def set_item_def get_obj_def)
  show "\<exists>w. fst (weight ops s) = Inr w
               \<and> dict s' =
                   (module_save_to_state_dict ops (dict s) prefix keep_vars)
                     (prefix @ ''weight'' \<mapsto> TensorV w,
                      prefix @ ''scale'' \<mapsto> TensorV (torch_tensor_real (scale (obj s))),
                      prefix @ ''zero_point'' \<mapsto> TensorV (torch_tensor_int (zero_point (obj s))),
                      prefix @ ''bias'' \<mapsto> bias (obj s))"
    using fw d by blast
  show "\<forall>k \<in> {prefix @ ''weight'', prefix @ ''scale'', prefix @ ''zero_point'',
                        prefix @ ''bias''}.
                  \<forall>v. dict s' k = Some v \<longrightarrow> \<not> is_packed v"
    using assms by (auto simp: d)
qed

lemma replicate_numeral_6: "replicate 6 x = [x, x, x, x, x, x]"
  by (simp add: eval_nat_numeral)

lemma replicate_numeral_2: "replicate 2 x = [x, x]"
  by (simp add: eval_nat_numeral)

lemma example_constructed_eq:
  "example_constructed =
     \<lparr>obj = \<lparr>in_channels = 3, out_channels = 2, kernel_size = [1, 1], stride = [1, 1],
             padding = [0, 0], dilation = [1, 1], transposed = False, output_padding = 0,
             groups = 1, padding_mode = ''zeros'',
             packed_weight = Some \<lparr>dtype = QInt8, sizes = [2, 1, 1, 3], strides = [3, 1, 1, 1],
                storage = IntStorage [0, 0, 0, 0, 0, 0], qscale = 1, qzero = 0\<rparr>,
             weight_scale = 1,
             bias = TensorV \<lparr>dtype = QInt32, sizes = [2], strides = [1],
                storage = IntStorage [0, 0], qscale = 1, qzero = 0\<rparr>,
             scale = 1, zero_point = 0\<rparr>,
      dict = Map.empty,
      calls = [EmptyAffineQuantized [2, 3, 1, 1] 1 0 QInt8,
               ConvPrepack \<lparr>dtype = QInt8, sizes = [2, 1, 1, 3], strides = [3, 1, 1, 1],
                  storage = IntStorage [0, 0, 0, 0, 0, 0], qscale = 1, qzero = 0\<rparr>
                 [1, 1] [0, 0] [1, 1] 1,
               EmptyAffineQuantized [2] 1 0 QInt32]\<rparr>"
  by (simp add: example_constructed_def Conv2d_def init_def set_weight_def py_defs py_mod_def
      py_floordiv_def py_index_def store_ops_def permute_def is_axis_permutation_def
      contiguous_strides_def q_scale_def is_quantized_def example_world_def fresh_object_def
      example_module_def replicate_numeral_6 replicate_numeral_2)

lemma weight_returns:
  assumes "packed_weight (obj s) = Some p" and "conv_unpack ops p = Inr w_nhwc"
      and "permute [0, 3, 1, 2] w_nhwc = Inr w"
  shows "weight ops s = (Inr w, s\<lparr>calls := calls s @ [ConvUnpack p]\<rparr>)"
  using assms by (simp add: weight_def py_defs)

lemma serialized_state_written:
  assumes "packed_weight (obj s) = Some p" and "conv_unpack ops p = Inr w_nhwc"
      and "permute [0, 3, 1, 2] w_nhwc = Inr w"
  shows "getstate ops s =
           (Inr (in_channels (obj s), out_channels (obj s), kernel_size (obj s),
                 stride (obj s), padding (obj s), dilation (obj s), transposed (obj s),
                 output_padding (obj s), groups (obj s), padding_mode (obj s),
                 TensorV w, bias (obj s), scale (obj s), zero_point (obj s)),
            s\<lparr>calls := calls s @ [ConvUnpack p]\<rparr>)
         \<and> save_to_state_dict ops prefix keep_vars s =
           (Inr (),
            s\<lparr>dict := (module_save_to_state_dict ops (dict s) prefix keep_vars)
                     (prefix @ ''weight'' \<mapsto> TensorV w,
                      prefix @ ''scale'' \<mapsto> TensorV (torch_tensor_real (scale (obj s))),
                      prefix @ ''zero_point'' \<mapsto> TensorV (torch_tensor_int (zero_point (obj s))),
                      prefix @ ''bias'' \<mapsto> bias (obj s)),
              calls := calls s @ [ModuleSaveToStateDict (dict s) prefix keep_vars,
                                  ConvUnpack p]\<rparr>)"
proof -
  have g: "getstate ops s =
           (Inr (in_channels (obj s), out_channels (obj s), kernel_size (obj s),
                 stride (obj s), padding (obj s), dilation (obj s), transposed (obj s),
                 output_padding (obj s), groups (obj s), padding_mode (obj s),
                 TensorV w, bias (obj s), scale (obj s), zero_point (obj s)),
            s\<lparr>calls := calls s @ [ConvUnpack p]\<rparr>)"
    by (simp add: getstate_def bnd_def get_obj_def ret_def weight_returns[OF assms])
  let ?s0 = "s\<lparr>dict := module_save_to_state_dict ops (dict s) prefix keep_vars,
                calls := calls s @ [ModuleSaveToStateDict (dict s) prefix keep_vars]\<rparr>"
  have p0: "packed_weight (obj ?s0) = Some p" using assms(1) by simp
  have w0: "weight ops ?s0 = (Inr w, ?s0\<lparr>calls := calls ?s0 @ [ConvUnpack p]\<rparr>)"
    by (rule weight_returns[OF p0 assms(2,3)])
  have sv: "save_to_state_dict ops prefix keep_vars s =
           (Inr (),
            s\<lparr>dict := (module_save_to_state_dict ops (dict s) prefix keep_vars)
                     (prefix @ ''weight'' \<mapsto> TensorV w,
                      prefix @ ''scale'' \<mapsto> TensorV (torch_tensor_real (scale (obj s))),
                      prefix @ ''zero_point'' \<mapsto> TensorV (torch_tensor_int (zero_point (obj s))),
                      prefix @ ''bias'' \<mapsto> bias (obj s)),
              calls := calls s @ [ModuleSaveToStateDict (dict s) prefix keep_vars,
                                  ConvUnpack p]\<rparr>)"
    by (simp add: save_to_state_dict_def bnd_def super_save_to_state_dict_def w0
        set_item_def get_obj_def)
  show ?thesis using g sv by simp
qed

text \<open>
  Claim C2. For a module whose bias is \<open>None\<close> or a tensor, as the constructor
  (\<open>Conv2d_bias_not_packed\<close>) and \<open>from_float\<close> (\<open>from_float_bias_not_packed\<close>) leave
  it, and whose packed weight the backend unpacks to a tensor with four axes:
  \<open>__getstate__\<close> returns the tuple of, in this order, \<open>in_channels\<close>, \<open>out_channels\<close>,
  \<open>kernel_size\<close>, \<open>stride\<close>, \<open>padding\<close>, \<open>dilation\<close>, \<open>transposed\<close>, \<open>output_padding\<close>,
  \<open>groups\<close>, \<open>padding_mode\<close>, the tensor that \<open>weight()\<close> returns, \<open>bias\<close>, \<open>scale\<close>,
  \<open>zero_point\<close>; and \<open>_save_to_state_dict\<close> returns after writing, onto what the base
  class left, the tensor that \<open>weight()\<close> returns, the scale, the zero point and the bias
  under the prefixed keys. Whenever either returns at all, its result is of this form, and
  none of these entries is the opaque handle.
\<close>

theorem serialized_state_portable:
  assumes "\<not> is_packed (bias (obj s))"
  shows "((\<forall>st s'. getstate ops s = (Inr st, s') \<longrightarrow>
            (\<exists>w. fst (weight ops s) = Inr w
               \<and> st = (in_channels (obj s), out_channels (obj s), kernel_size (obj s),
                       stride (obj s), padding (obj s), dilation (obj s), transposed (obj s),
                       output_padding (obj s), groups (obj s), padding_mode (obj s),
                       TensorV w, bias (obj s), scale (obj s), zero_point (obj s)))
             \<and> \<not> is_packed (state_weight st) \<and> \<not> is_packed (state_bias st))
       \<and> (\<forall>s'. save_to_state_dict ops prefix keep_vars s = (Inr (), s') \<longrightarrow>
            (\<exists>w. fst (weight ops s) = Inr w
               \<and> dict s' =
                   (module_save_to_state_dict ops (dict s) prefix keep_vars)
                     (prefix @ ''weight'' \<mapsto> TensorV w,
                      prefix @ ''scale'' \<mapsto> TensorV (torch_tensor_real (scale (obj s))),
                      prefix @ ''zero_point'' \<mapsto> TensorV (torch_tensor_int (zero_point (obj s))),
                      prefix @ ''bias'' \<mapsto> bias (obj s)))
             \<and> (\<forall>k \<in> {prefix @ ''weight'', prefix @ ''scale'', prefix @ ''zero_point'',
                        prefix @ ''bias''}.
                  \<forall>v. dict s' k = Some v \<longrightarrow> \<not> is_packed v)))
       \<and> (\<forall>p w_nhwc w. packed_weight (obj s) = Some p \<and> conv_unpack ops p = Inr w_nhwc
            \<and> permute [0, 3, 1, 2] w_nhwc = Inr w \<longrightarrow>
           getstate ops s =
           (Inr (in_channels (obj s), out_channels (obj s), kernel_size (obj s),
                 stride (obj s), padding (obj s), dilation (obj s), transposed (obj s),
                 output_padding (obj s), groups (obj s), padding_mode (obj s),
                 TensorV w, bias (obj s), scale (obj s), zero_point (obj s)),
            s\<lparr>calls := calls s @ [ConvUnpack p]\<rparr>)
         \<and> save_to_state_dict ops prefix keep_vars s =
           (Inr (),
            s\<lparr>dict := (module_save_to_state_dict ops (dict s) prefix keep_vars)
                     (prefix @ ''weight'' \<mapsto> TensorV w,
                      prefix @ ''scale'' \<mapsto> TensorV (torch_tensor_real (scale (obj s))),
                      prefix @ ''zero_point'' \<mapsto> TensorV (torch_tensor_int (zero_point (obj s))),
                      prefix @ ''bias'' \<mapsto> bias (obj s)),
              calls := calls s @ [ModuleSaveToStateDict (dict s) prefix keep_vars,
                                  ConvUnpack p]\<rparr>))"
proof (rule conjI)
  show "(\<forall>st s'. getstate ops s = (Inr st, s') \<longrightarrow>
            (\<exists>w. fst (weight ops s) = Inr w
               \<and> st = (in_channels (obj s), out_channels (obj s), kernel_size (obj s),
                       stride (obj s), padding (obj s), dilation (obj s), transposed (obj s),
                       output_padding (obj s), groups (obj s), padding_mode (obj s),
                       TensorV w, bias (obj s), scale (obj s), zero_point (obj s)))
             \<and> \<not> is_packed (state_weight st) \<and> \<not> is_packed (state_bias st))
       \<and> (\<forall>s'. save_to_state_dict ops prefix keep_vars s = (Inr (), s') \<longrightarrow>
            (\<exists>w. fst (weight ops s) = Inr w
               \<and> dict s' =
                   (module_save_to_state_dict ops (dict s) prefix keep_vars)
                     (prefix @ ''weight'' \<mapsto> TensorV w,
                      prefix @ ''scale'' \<mapsto> TensorV (torch_tensor_real (scale (obj s))),
                      prefix @ ''zero_point'' \<mapsto> TensorV (torch_tensor_int (zero_point (obj s))),
                      prefix @ ''bias'' \<mapsto> bias (obj s)))
             \<and> (\<forall>k \<in> {prefix @ ''weight'', prefix @ ''scale'', prefix @ ''zero_point'',
                        prefix @ ''bias''}.
                  \<forall>v. dict s' k = Some v \<longrightarrow> \<not> is_packed v))"
    by (rule serialized_state_when_returns[OF assms])
next
  show "(\<forall>p w_nhwc w. packed_weight (obj s) = Some p \<and> conv_unpack ops p = Inr w_nhwc
            \<and> permute [0, 3, 1, 2] w_nhwc = Inr w \<longrightarrow>
           getstate ops s =
           (Inr (in_channels (obj s), out_channels (obj s), kernel_size (obj s),
                 stride (obj s), padding (obj s), dilation (obj s), transposed (obj s),
                 output_padding (obj s), groups (obj s), padding_mode (obj s),
                 TensorV w, bias (obj s), scale (obj s), zero_point (obj s)),
            s\<lparr>calls := calls s @ [ConvUnpack p]\<rparr>)
         \<and> save_to_state_dict ops prefix keep_vars s =
           (Inr (),
            s\<lparr>dict := (module_save_to_state_dict ops (dict s) prefix keep_vars)
                     (prefix @ ''weight'' \<mapsto> TensorV w,
                      prefix @ ''scale'' \<mapsto> TensorV (torch_tensor_real (scale (obj s))),
                      prefix @ ''zero_point'' \<mapsto> TensorV (torch_tensor_int (zero_point (obj s))),
                      prefix @ ''bias'' \<mapsto> bias (obj s)),
              calls := calls s @ [ModuleSaveToStateDict (dict s) prefix keep_vars,
                                  ConvUnpack p]\<rparr>))"
    by (intro allI impI, elim conjE, rule serialized_state_written)
qed

theorem serialized_state_portable_witness:
  "\<not> is_packed (bias (obj example_constructed))
   \<and> fst (getstate store_ops example_constructed) =
       Inr (3, 2, [1, 1], [1, 1], [0, 0], [1, 1], False, 0, 1, ''zeros'',
            TensorV \<lparr>dtype = QInt8, sizes = [2, 3, 1, 1], strides = [3, 1, 1, 1],
                     storage = IntStorage [0, 0, 0, 0, 0, 0], qscale = 1, qzero = 0\<rparr>,
            TensorV \<lparr>dtype = QInt32, sizes = [2], strides = [1],
                     storage = IntStorage [0, 0], qscale = 1, qzero = 0\<rparr>,
            1, 0)
   \<and> fst (save_to_state_dict store_ops ''conv.'' False example_constructed) = Inr ()
   \<and> dict (snd (save_to_state_dict store_ops ''conv.'' False example_constructed))
         ''conv.weight''
       = Some (TensorV \<lparr>dtype = QInt8, sizes = [2, 3, 1, 1], strides = [3, 1, 1, 1],
                        storage = IntStorage [0, 0, 0, 0, 0, 0], qscale = 1, qzero = 0\<rparr>)
   \<and> dict (snd (save_to_state_dict store_ops ''conv.'' False example_constructed))
         ''conv.bias''
       = Some (TensorV \<lparr>dtype = QInt32, sizes = [2], strides = [1],
                        storage = IntStorage [0, 0], qscale = 1, qzero = 0\<rparr>)
   \<and> dom (dict (snd (save_to_state_dict store_ops ''conv.'' False example_constructed)))
       = {''conv.weight'', ''conv.scale'', ''conv.zero_point'', ''conv.bias''}"
proof -
  let ?p = "\<lparr>dtype = QInt8, sizes = [2, 1, 1, 3], strides = [3, 1, 1, 1],
             storage = IntStorage [0, 0, 0, 0, 0, 0], qscale = 1, qzero = 0\<rparr>"
  let ?w = "\<lparr>dtype = QInt8, sizes = [2, 3, 1, 1], strides = [3, 1, 1, 1],
             storage = IntStorage [0, 0, 0, 0, 0, 0], qscale = 1, qzero = 0\<rparr>"
  have np: "\<not> is_packed (bias (obj example_constructed))"
    by (simp add: example_constructed_eq)
  have pw: "packed_weight (obj example_constructed) = Some ?p"
    by (simp add: example_constructed_eq)
  have un: "conv_unpack store_ops ?p = Inr ?p"
    by (simp add: store_ops_def)
  have pm: "permute [0, 3, 1, 2] ?p = Inr ?w"
    by (simp add: permute_def is_axis_permutation_def)
  have "\<forall>p w_nhwc w. packed_weight (obj example_constructed) = Some p
            \<and> conv_unpack store_ops p = Inr w_nhwc
            \<and> permute [0, 3, 1, 2] w_nhwc = Inr w \<longrightarrow>
           getstate store_ops example_constructed =
           (Inr (in_channels (obj example_constructed), out_channels (obj example_constructed),
                 kernel_size (obj example_constructed), stride (obj example_constructed),
                 padding (obj example_constructed), dilation (obj example_constructed),
                 transposed (obj example_constructed),
                 output_padding (obj example_constructed), groups (obj example_constructed),
                 padding_mode (obj example_constructed),
                 TensorV w, bias (obj example_constructed), scale (obj example_constructed),
                 zero_point (obj example_constructed)),
            example_constructed\<lparr>calls := calls example_constructed @ [ConvUnpack p]\<rparr>)
         \<and> save_to_state_dict store_ops ''conv.'' False example_constructed =
           (Inr (),
            example_constructed
             \<lparr>dict := (module_save_to_state_dict store_ops (dict example_constructed)
                         ''conv.'' False)
                     (''conv.'' @ ''weight'' \<mapsto> TensorV w,
                      ''conv.'' @ ''scale'' \<mapsto>
                        TensorV (torch_tensor_real (scale (obj example_constructed))),
                      ''conv.'' @ ''zero_point'' \<mapsto>
                        TensorV (torch_tensor_int (zero_point (obj example_constructed))),
                      ''conv.'' @ ''bias'' \<mapsto> bias (obj example_constructed)),
              calls := calls example_constructed @
                       [ModuleSaveToStateDict (dict example_constructed) ''conv.'' False,
                        ConvUnpack p]\<rparr>)"
    using serialized_state_portable[OF np, of store_ops "''conv.''" False]
    by (elim conjE)
  from this[rule_format, OF conjI[OF pw conjI[OF un pm]]]
  have g: "getstate store_ops example_constructed =
           (Inr (in_channels (obj example_constructed), out_channels (obj example_constructed),
                 kernel_size (obj example_constructed), stride (obj example_constructed),
                 padding (obj example_constructed), dilation (obj example_constructed),
                 transposed (obj example_constructed),
                 output_padding (obj example_constructed), groups (obj example_constructed),
                 padding_mode (obj example_constructed),
                 TensorV ?w, bias (obj example_constructed), scale (obj example_constructed),
                 zero_point (obj example_constructed)),
            example_constructed\<lparr>calls := calls example_constructed @ [ConvUnpack ?p]\<rparr>)"
    and sv: "save_to_state_dict store_ops ''conv.'' False example_constructed =
           (Inr (),
            example_constructed
             \<lparr>dict := (module_save_to_state_dict store_ops (dict example_constructed)
                         ''conv.'' False)
                     (''conv.'' @ ''weight'' \<mapsto> TensorV ?w,
                      ''conv.'' @ ''scale'' \<mapsto>
                        TensorV (torch_tensor_real (scale (obj example_constructed))),
                      ''conv.'' @ ''zero_point'' \<mapsto>
                        TensorV (torch_tensor_int (zero_point (obj example_constructed))),
                      ''conv.'' @ ''bias'' \<mapsto> bias (obj example_constructed)),
              calls := calls example_constructed @
                       [ModuleSaveToStateDict (dict example_constructed) ''conv.'' False,
                        ConvUnpack ?p]\<rparr>)"
    by simp_all
  have a1: "fst (getstate store_ops example_constructed) =
       Inr (3, 2, [1, 1], [1, 1], [0, 0], [1, 1], False, 0, 1, ''zeros'',
            TensorV ?w,
            TensorV \<lparr>dtype = QInt32, sizes = [2], strides = [1],
                     storage = IntStorage [0, 0], qscale = 1, qzero = 0\<rparr>,
            1, 0)"
    by (simp add: g) (simp add: example_constructed_eq)
  have a2: "fst (save_to_state_dict store_ops ''conv.'' False example_constructed) = Inr ()"
    by (simp add: sv)
  have a3: "dict (snd (save_to_state_dict store_ops ''conv.'' False example_constructed))
         ''conv.weight'' = Some (TensorV ?w)"
    by (simp add: sv)
  have a4: "dict (snd (save_to_state_dict store_ops ''conv.'' False example_constructed))
         ''conv.bias''
       = Some (TensorV \<lparr>dtype = QInt32, sizes = [2], strides = [1],
                        storage = IntStorage [0, 0], qscale = 1, qzero = 0\<rparr>)"
    by (simp add: sv) (simp add: example_constructed_eq)
  have a5: "dom (dict (snd (save_to_state_dict store_ops ''conv.'' False example_constructed)))
       = {''conv.weight'', ''conv.scale'', ''conv.zero_point'', ''conv.bias''}"
    by (simp add: sv) (auto simp: example_constructed_eq store_ops_def)
  show ?thesis
    using np a1 a2 a3 a4 a5 by (intro conjI)
qed

subsection \<open>Deserialization\<close>

lemma set_weight_value_dict:
  "set_weight_value ops v s = (r, s1) \<Longrightarrow> dict s1 = dict s"
  by (cases v) (auto simp: set_weight_value_def raise_def dest: set_weight_dict)

lemma load_unfold:
  "load_from_state_dict ops prefix s =
     (case dict s (prefix @ ''weight'') of
        None \<Rightarrow> (Inl (KeyError (prefix @ ''weight'')), s)
      | Some v \<Rightarrow>
     (case set_weight_value ops v s of
        (Inl e, s1) \<Rightarrow> (Inl e, s1)
      | (Inr u, s1) \<Rightarrow>
     (case dict s (prefix @ ''bias'') of
        None \<Rightarrow> (Inl (KeyError (prefix @ ''bias'')),
                 s1\<lparr>dict := (dict s)(prefix @ ''weight'' := None)\<rparr>)
      | Some vb \<Rightarrow>
     (case dict s (prefix @ ''scale'') of
        None \<Rightarrow> (Inl (KeyError (prefix @ ''scale'')),
                 s1\<lparr>obj := (obj s1)\<lparr>bias := vb\<rparr>,
                    dict := (dict s)(prefix @ ''weight'' := None, prefix @ ''bias'' := None)\<rparr>)
      | Some vs \<Rightarrow>
     (case py_float vs of
        Inl e \<Rightarrow> (Inl e,
                  s1\<lparr>obj := (obj s1)\<lparr>bias := vb\<rparr>,
                     dict := (dict s)(prefix @ ''weight'' := None, prefix @ ''bias'' := None)\<rparr>)
      | Inr r \<Rightarrow>
     (case dict s (prefix @ ''zero_point'') of
        None \<Rightarrow> (Inl (KeyError (prefix @ ''zero_point'')),
                 s1\<lparr>obj := (obj s1)\<lparr>bias := vb, scale := r\<rparr>,
                    dict := (dict s)(prefix @ ''weight'' := None, prefix @ ''bias'' := None,
                                     prefix @ ''scale'' := None)\<rparr>)
      | Some vz \<Rightarrow>
     (case py_int vz of
        Inl e \<Rightarrow> (Inl e,
                  s1\<lparr>obj := (obj s1)\<lparr>bias := vb, scale := r\<rparr>,
                     dict := (dict s)(prefix @ ''weight'' := None, prefix @ ''bias'' := None,
                                      prefix @ ''scale'' := None)\<rparr>)
      | Inr z \<Rightarrow>
          (Inr (),
           s1\<lparr>obj := (obj s1)\<lparr>bias := vb, scale := r, zero_point := z\<rparr>,
              dict := module_load_from_state_dict ops
                        ((dict s)(prefix @ ''weight'' := None, prefix @ ''bias'' := None,
                                  prefix @ ''scale'' := None, prefix @ ''zero_point'' := None))
                        prefix False,
              calls := calls s1 @
                       [ModuleLoadFromStateDict
                          ((dict s)(prefix @ ''weight'' := None, prefix @ ''bias'' := None,
                                    prefix @ ''scale'' := None, prefix @ ''zero_point'' := None))
                          prefix False]\<rparr>))))))))"
proof (cases "dict s (prefix @ ''weight'')")
  case None
  then show ?thesis
    by (simp add: load_from_state_dict_def bnd_def get_item_def)
next
  case (Some v)
  obtain r s1 where sw: "set_weight_value ops v s = (r, s1)"
    by (cases "set_weight_value ops v s")
  have d: "dict s1 = dict s" using set_weight_value_dict[OF sw] .
  show ?thesis
  proof (cases r)
    case (Inl e)
    then show ?thesis
      using Some sw by (simp add: load_from_state_dict_def bnd_def get_item_def)
  next
    case (Inr u)
    then show ?thesis
      using Some sw d
      by (simp add: load_from_state_dict_def bnd_def dict_defs lift_def ret_def raise_def
          set_attr_def split: option.splits sum.splits)
  qed
qed

text \<open>
  Claim C9, as amended. \<open>_load_from_state_dict\<close> reads the four entries in the order
  weight, bias, scale, zero point, and assigns as it reads. A missing weight raises
  \<open>KeyError\<close> and leaves the state as it was. When the weight is a tensor that
  \<open>set_weight\<close> installs, a missing entry among the later ones raises \<open>KeyError\<close> for its
  key, and the state keeps what was done before: the installed weight, the attributes
  assigned so far, the entries removed so far. When all four entries are there, with a
  scale and a zero point that convert, the load returns, the weight is the one
  \<open>set_weight\<close> installed, and bias, scale and zero point are the values of the entries.
\<close>

theorem load_missing_or_complete:
  "(dict s (prefix @ ''weight'') = None \<longrightarrow>
      load_from_state_dict ops prefix s = (Inl (KeyError (prefix @ ''weight'')), s))
   \<and> (\<forall>t s1. dict s (prefix @ ''weight'') = Some (TensorV t)
            \<and> set_weight ops t s = (Inr (), s1) \<longrightarrow>
        (dict s (prefix @ ''bias'') = None \<longrightarrow>
           load_from_state_dict ops prefix s =
             (Inl (KeyError (prefix @ ''bias'')),
              s1\<lparr>dict := (dict s)(prefix @ ''weight'' := None)\<rparr>))
      \<and> (\<forall>vb. dict s (prefix @ ''bias'') = Some vb \<longrightarrow>
          (dict s (prefix @ ''scale'') = None \<longrightarrow>
             load_from_state_dict ops prefix s =
               (Inl (KeyError (prefix @ ''scale'')),
                s1\<lparr>obj := (obj s1)\<lparr>bias := vb\<rparr>,
                   dict := (dict s)(prefix @ ''weight'' := None, prefix @ ''bias'' := None)\<rparr>))
        \<and> (\<forall>vs r. dict s (prefix @ ''scale'') = Some vs \<and> py_float vs = Inr r \<longrightarrow>
            (dict s (prefix @ ''zero_point'') = None \<longrightarrow>
               load_from_state_dict ops prefix s =
                 (Inl (KeyError (prefix @ ''zero_point'')),
                  s1\<lparr>obj := (obj s1)\<lparr>bias := vb, scale := r\<rparr>,
                     dict := (dict s)(prefix @ ''weight'' := None, prefix @ ''bias'' := None,
                                      prefix @ ''scale'' := None)\<rparr>))
          \<and> (\<forall>vz z. dict s (prefix @ ''zero_point'') = Some vz \<and> py_int vz = Inr z \<longrightarrow>
               fst (load_from_state_dict ops prefix s) = Inr ()
             \<and> obj (snd (load_from_state_dict ops prefix s)) =
                 (obj s1)\<lparr>bias := vb, scale := r, zero_point := z\<rparr>))))"
  by (simp add: load_unfold set_weight_value_def)

theorem load_missing_or_complete_witness:
  "dict example_load_world (''conv.'' @ ''weight'') = Some (TensorV example_weight)
   \<and> fst (set_weight store_ops example_weight example_load_world) = Inr ()
   \<and> dict example_load_world (''conv.'' @ ''bias'') = Some NoneV
   \<and> dict example_load_world (''conv.'' @ ''scale'') = Some (TensorV (torch_tensor_real (1 / 2)))
   \<and> py_float (TensorV (torch_tensor_real (1 / 2)) :: tensor pyval) = Inr (1 / 2)
   \<and> dict example_load_world (''conv.'' @ ''zero_point'') = Some (TensorV (torch_tensor_int 3))
   \<and> py_int (TensorV (torch_tensor_int 3) :: tensor pyval) = Inr 3
   \<and> fst (load_from_state_dict store_ops ''conv.'' example_load_world) = Inr ()
   \<and> scale (obj (snd (load_from_state_dict store_ops ''conv.'' example_load_world))) = 1 / 2
   \<and> zero_point (obj (snd (load_from_state_dict store_ops ''conv.'' example_load_world))) = 3
   \<and> bias (obj (snd (load_from_state_dict store_ops ''conv.'' example_load_world))) = NoneV"
proof -
  have kw: "dict example_load_world (''conv.'' @ ''weight'') = Some (TensorV example_weight)"
    and kb: "dict example_load_world (''conv.'' @ ''bias'') = Some NoneV"
    and ks: "dict example_load_world (''conv.'' @ ''scale'')
             = Some (TensorV (torch_tensor_real (1 / 2)))"
    and kz: "dict example_load_world (''conv.'' @ ''zero_point'')
             = Some (TensorV (torch_tensor_int 3))"
    by (simp_all add: example_load_world_def example_state_dict_def)
  have pf: "py_float (TensorV (torch_tensor_real (1 / 2)) :: tensor pyval) = Inr (1 / 2)"
    by (simp add: torch_tensor_real_def is_quantized_def)
  have pi: "py_int (TensorV (torch_tensor_int 3) :: tensor pyval) = Inr 3"
    by (simp add: torch_tensor_int_def is_quantized_def)
  obtain s1 where sw: "set_weight store_ops example_weight example_load_world = (Inr (), s1)"
    by (cases "set_weight store_ops example_weight example_load_world")
       (simp add: set_weight_def py_defs permute_def is_axis_permutation_def store_ops_def
          q_scale_def is_quantized_def example_weight_def)
  have "fst (load_from_state_dict store_ops ''conv.'' example_load_world) = Inr ()
        \<and> obj (snd (load_from_state_dict store_ops ''conv.'' example_load_world)) =
            (obj s1)\<lparr>bias := NoneV, scale := 1 / 2, zero_point := 3\<rparr>"
    using load_missing_or_complete[of example_load_world "''conv.''" store_ops] kw kb ks kz pf pi sw
    by blast
  then show ?thesis
    using kw kb ks kz pf pi sw by simp
qed

text \<open>
  A dictionary without the bias entry: the load raises \<open>KeyError\<close>, and the module has
  already taken the new weight (its weight scale went from 1 to 0.25) and the dictionary
  has lost its weight entry.
\<close>

theorem load_missing_bias_counterexample:
  "dict example_partial_world ''conv.bias'' = None
   \<and> fst (load_from_state_dict store_ops ''conv.'' example_partial_world)
       = Inl (KeyError ''conv.bias'')
   \<and> weight_scale (obj example_partial_world) = 1
   \<and> weight_scale
        (obj (snd (load_from_state_dict store_ops ''conv.'' example_partial_world))) = 1 / 4
   \<and> dict example_partial_world ''conv.weight'' = Some (TensorV example_weight)
   \<and> dict (snd (load_from_state_dict store_ops ''conv.'' example_partial_world)) ''conv.weight''
       = None"
  by (simp add: load_unfold set_weight_value_def example_partial_world_def
      example_state_dict_def example_constructed_eq set_weight_def py_defs permute_def
      is_axis_permutation_def store_ops_def q_scale_def is_quantized_def example_weight_def)

lemma load_raises_frame:
  assumes "load_from_state_dict ops prefix s = (Inl e, s')"
      and "k \<notin> {prefix @ ''weight'', prefix @ ''bias'', prefix @ ''scale'',
                 prefix @ ''zero_point''}"
  shows "dict s' k = dict s k"
  using assms
  by (auto simp: load_unfold split: option.splits prod.splits sum.splits
      dest: set_weight_value_dict)

text \<open>
  Claim C10. Whenever \<open>_load_from_state_dict\<close> returns, the four prefixed keys were in
  the mapping; the mapping handed to the loader of the base class, the last call made,
  is the caller's mapping without exactly these four entries, every other entry as it
  was; and the mapping afterwards is what the base class makes of it. Whenever it
  raises, every entry under another key is as it was.
\<close>

theorem load_removes_exactly:
  "(\<forall>s'. load_from_state_dict ops prefix s = (Inr (), s') \<longrightarrow>
      (\<exists>d. {prefix @ ''weight'', prefix @ ''bias'', prefix @ ''scale'', prefix @ ''zero_point''}
               \<subseteq> dom (dict s)
           \<and> dom d = dom (dict s)
                       - {prefix @ ''weight'', prefix @ ''bias'', prefix @ ''scale'',
                          prefix @ ''zero_point''}
           \<and> (\<forall>k \<in> dom d. d k = dict s k)
           \<and> last (calls s') = ModuleLoadFromStateDict d prefix False
           \<and> dict s' = module_load_from_state_dict ops d prefix False))
   \<and> (\<forall>e s' k. load_from_state_dict ops prefix s = (Inl e, s')
            \<and> k \<notin> {prefix @ ''weight'', prefix @ ''bias'', prefix @ ''scale'',
                     prefix @ ''zero_point''}
          \<longrightarrow> dict s' k = dict s k)"
proof (intro conjI allI impI)
  fix s'
  assume ret: "load_from_state_dict ops prefix s = (Inr (), s')"
  let ?d = "(dict s)(prefix @ ''weight'' := None, prefix @ ''bias'' := None,
                     prefix @ ''scale'' := None, prefix @ ''zero_point'' := None)"
  have "{prefix @ ''weight'', prefix @ ''bias'', prefix @ ''scale'', prefix @ ''zero_point''}
               \<subseteq> dom (dict s)
        \<and> last (calls s') = ModuleLoadFromStateDict ?d prefix False
        \<and> dict s' = module_load_from_state_dict ops ?d prefix False"
    using ret
    by (auto simp: load_unfold split: option.splits prod.splits sum.splits)
  moreover have "dom ?d = dom (dict s)
                       - {prefix @ ''weight'', prefix @ ''bias'', prefix @ ''scale'',
                          prefix @ ''zero_point''}"
    by auto
  moreover have "\<forall>k \<in> dom ?d. ?d k = dict s k"
    by (auto split: if_splits)
  ultimately show "\<exists>d. {prefix @ ''weight'', prefix @ ''bias'', prefix @ ''scale'',
                 prefix @ ''zero_point''}
               \<subseteq> dom (dict s)
           \<and> dom d = dom (dict s)
                       - {prefix @ ''weight'', prefix @ ''bias'', prefix @ ''scale'',
                          prefix @ ''zero_point''}
           \<and> (\<forall>k \<in> dom d. d k = dict s k)
           \<and> last (calls s') = ModuleLoadFromStateDict d prefix False
           \<and> dict s' = module_load_from_state_dict ops d prefix False"
    by (intro exI[of _ ?d]) blast
next
  fix e s' k
  assume "load_from_state_dict ops prefix s = (Inl e, s')
            \<and> k \<notin> {prefix @ ''weight'', prefix @ ''bias'', prefix @ ''scale'',
                     prefix @ ''zero_point''}"
  then show "dict s' k = dict s k"
    by (elim conjE) (rule load_raises_frame)
qed

theorem load_removes_exactly_witness:
  "fst (load_from_state_dict store_ops ''conv.'' example_load_world) = Inr ()
   \<and> dom (dict (snd (load_from_state_dict store_ops ''conv.'' example_load_world)))
       = {''fc.weight''}
   \<and> fst (load_from_state_dict store_ops ''conv.'' example_partial_world)
       = Inl (KeyError ''conv.bias'')
   \<and> dict (snd (load_from_state_dict store_ops ''conv.'' example_partial_world)) ''fc.weight''
       = dict example_partial_world ''fc.weight''"
proof -
  obtain u s' where l: "load_from_state_dict store_ops ''conv.'' example_load_world = (u, s')"
    by (cases "load_from_state_dict store_ops ''conv.'' example_load_world")
  have f: "fst (load_from_state_dict store_ops ''conv.'' example_load_world) = Inr ()"
    by (simp add: load_unfold set_weight_value_def example_load_world_def
      example_state_dict_def example_constructed_eq set_weight_def py_defs permute_def
      is_axis_permutation_def store_ops_def q_scale_def is_quantized_def example_weight_def
      torch_tensor_real_def torch_tensor_int_def)
  then have l': "load_from_state_dict store_ops ''conv.'' example_load_world = (Inr (), s')"
    using l by simp
  have "\<forall>s'. load_from_state_dict store_ops ''conv.'' example_load_world = (Inr (), s') \<longrightarrow>
      (\<exists>d. {''conv.'' @ ''weight'', ''conv.'' @ ''bias'', ''conv.'' @ ''scale'',
            ''conv.'' @ ''zero_point''}
               \<subseteq> dom (dict example_load_world)
           \<and> dom d = dom (dict example_load_world)
                       - {''conv.'' @ ''weight'', ''conv.'' @ ''bias'', ''conv.'' @ ''scale'',
                          ''conv.'' @ ''zero_point''}
           \<and> (\<forall>k \<in> dom d. d k = dict example_load_world k)
           \<and> last (calls s') = ModuleLoadFromStateDict d ''conv.'' False
           \<and> dict s' = module_load_from_state_dict store_ops d ''conv.'' False)"
    using load_removes_exactly[of store_ops "''conv.''" example_load_world]
    by (rule conjunct1)
  from this[rule_format, OF l'] obtain d where
    d: "dom d = dom (dict example_load_world)
                 - {''conv.'' @ ''weight'', ''conv.'' @ ''bias'', ''conv.'' @ ''scale'',
                    ''conv.'' @ ''zero_point''}"
    and s': "dict s' = module_load_from_state_dict store_ops d ''conv.'' False"
    by blast
  have "dom (dict example_load_world) = {''conv.weight'', ''conv.bias'', ''conv.scale'',
          ''conv.zero_point'', ''fc.weight''}"
    by (auto simp: example_load_world_def example_state_dict_def split: if_splits)
  then have dd: "dom d = {''fc.weight''}"
    using d by auto
  obtain e t' where p: "load_from_state_dict store_ops ''conv.'' example_partial_world
                        = (e, t')"
    by (cases "load_from_state_dict store_ops ''conv.'' example_partial_world")
  have pf: "fst (load_from_state_dict store_ops ''conv.'' example_partial_world)
            = Inl (KeyError ''conv.bias'')"
    by (simp add: load_unfold set_weight_value_def example_partial_world_def
      example_state_dict_def example_constructed_eq set_weight_def py_defs permute_def
      is_axis_permutation_def store_ops_def q_scale_def is_quantized_def example_weight_def)
  then have p': "load_from_state_dict store_ops ''conv.'' example_partial_world
                 = (Inl (KeyError ''conv.bias''), t')"
    using p by simp
  have nk: "''fc.weight'' \<notin> {''conv.'' @ ''weight'', ''conv.'' @ ''bias'',
              ''conv.'' @ ''scale'', ''conv.'' @ ''zero_point''}"
    by simp
  have "\<forall>e s' k. load_from_state_dict store_ops ''conv.'' example_partial_world = (Inl e, s')
            \<and> k \<notin> {''conv.'' @ ''weight'', ''conv.'' @ ''bias'', ''conv.'' @ ''scale'',
                     ''conv.'' @ ''zero_point''}
          \<longrightarrow> dict s' k = dict example_partial_world k"
    using load_removes_exactly[of store_ops "''conv.''" example_partial_world]
    by (rule conjunct2)
  from this[rule_format, OF conjI[OF p' nk]]
  have fr: "dict t' ''fc.weight'' = dict example_partial_world ''fc.weight''" .
  have a1: "dom (dict (snd (load_from_state_dict store_ops ''conv.'' example_load_world)))
       = {''fc.weight''}"
  proof -
    have "dict s' = d" using s' by (simp add: store_ops_def)
    then show ?thesis by (simp add: l' dd)
  qed
  have a2: "dict (snd (load_from_state_dict store_ops ''conv.'' example_partial_world))
              ''fc.weight''
            = dict example_partial_world ''fc.weight''"
    using fr by (simp add: p')
  show ?thesis
    using f a1 pf a2 by blast
qed

subsection \<open>Conversion from a float module\<close>

lemma observers_frame:
  assumes "from_float_observers ops fmod0 s = (r, s1)"
  shows "obj s1 = obj s \<and> dict s1 = dict s
         \<and> filter quantizes_or_constructs (calls s1) = filter quantizes_or_constructs (calls s)"
  using assms
  by (auto simp: from_float_observers_def py_defs py_index_def
      split: option.splits if_splits prod.splits sum.splits)

text \<open>
  When the first part raises, \<open>from_float\<close> raises the same exception, and nothing has
  been quantized or constructed either.
\<close>

lemma from_float_raises_early:
  assumes "from_float_observers ops fmod0 s = (Inl e, s1)"
  shows "from_float ops fmod0 s = (Inl e, s1)
         \<and> filter quantizes_or_constructs (calls s1) = filter quantizes_or_constructs (calls s)
         \<and> obj s1 = obj s"
  using observers_frame[OF assms] by (simp add: from_float_def bnd_def assms)

text \<open>
  Claim C7. When the first part of \<open>from_float\<close> has selected a weight observer whose
  dtype is not \<open>qint8\<close>, \<open>from_float\<close> raises the \<open>AssertionError\<close> of its dtype check
  right after asking the activation observer for its QuantParams: up to there no tensor
  has been quantized, no placeholder tensor allocated, no weight packed, and no module
  object has been made.
\<close>

theorem from_float_rejects_dtype:
  assumes obs: "from_float_observers ops fmod0 s
                = (Inr (fmod, weight_observer, activation_observer), s1)"
      and dt: "obs_dtype weight_observer \<noteq> QInt8"
  shows "from_float ops fmod0 s =
           (Inl (AssertionError ''Weight observer must have a dtype of qint8''),
            s1\<lparr>calls := calls s1 @ [CalculateQparams activation_observer]\<rparr>)
         \<and> filter quantizes_or_constructs (calls (snd (from_float ops fmod0 s)))
             = filter quantizes_or_constructs (calls s)
         \<and> obj (snd (from_float ops fmod0 s)) = obj s"
proof -
  have r: "from_float ops fmod0 s =
           (Inl (AssertionError ''Weight observer must have a dtype of qint8''),
            s1\<lparr>calls := calls s1 @ [CalculateQparams activation_observer]\<rparr>)"
    using dt
    by (simp add: from_float_def bnd_def obs external_def record_call_def lift_def ret_def
        raise_def split: prod.splits)
  show ?thesis
    using observers_frame[OF obs] by (simp add: r)
qed

lemma example_observers:
  "from_float_observers store_ops example_float example_world =
     (Inr (example_float,
           \<lparr>obs_dtype = QInt8, obs_seen = [example_float_weight]\<rparr>,
           \<lparr>obs_dtype = QUInt8, obs_seen = []\<rparr>),
      example_world\<lparr>calls := [ObserverCall \<lparr>obs_dtype = QInt8, obs_seen = []\<rparr>
                                  example_float_weight]\<rparr>)"
  by (simp add: from_float_observers_def py_defs example_float_def example_attrs_def
      example_world_def)

lemma example_observers_quint8:
  "from_float_observers store_ops example_float_quint8 example_world =
     (Inr (example_float_quint8,
           \<lparr>obs_dtype = QUInt8, obs_seen = [example_float_weight]\<rparr>,
           \<lparr>obs_dtype = QUInt8, obs_seen = []\<rparr>),
      example_world\<lparr>calls := [ObserverCall \<lparr>obs_dtype = QUInt8, obs_seen = []\<rparr>
                                  example_float_weight]\<rparr>)"
  by (simp add: from_float_observers_def py_defs example_float_quint8_def example_attrs_def
      example_world_def)

lemma example_from_float:
  "fst (from_float store_ops example_float example_world) = Inr example_converted"
  by (simp add: from_float_def bnd_def example_observers)
     (simp add: Conv2d_def init_def set_weight_def py_defs py_mod_def
      py_floordiv_def py_index_def store_ops_def permute_def is_axis_permutation_def
      contiguous_strides_def q_scale_def is_quantized_def example_world_def fresh_object_def
      example_module_def replicate_numeral_6 replicate_numeral_2 example_float_def
      example_attrs_def example_float_weight_def example_float_bias_def tensor_float_def
      quantize_linear_def clamp_to_def example_converted_def)

theorem from_float_rejects_dtype_witness:
  "obs_dtype \<lparr>obs_dtype = QUInt8, obs_seen = [example_float_weight]\<rparr> \<noteq> QInt8
   \<and> fst (from_float store_ops example_float_quint8 example_world)
       = Inl (AssertionError ''Weight observer must have a dtype of qint8'')
   \<and> calls (snd (from_float store_ops example_float_quint8 example_world))
       = [ObserverCall \<lparr>obs_dtype = QUInt8, obs_seen = []\<rparr> example_float_weight,
          CalculateQparams \<lparr>obs_dtype = QUInt8, obs_seen = []\<rparr>]"
proof -
  have dt: "obs_dtype \<lparr>obs_dtype = QUInt8, obs_seen = [example_float_weight]\<rparr> \<noteq> QInt8"
    by simp
  show ?thesis
    using from_float_rejects_dtype[OF example_observers_quint8 dt] dt by simp
qed

lemma from_float_returns:
  assumes obs: "from_float_observers ops fmod0 s = (Inr (fmod, wo, ao), s1)"
      and ret: "from_float ops fmod0 s = (Inr qconv, s')"
  shows "\<exists>weight_real qweight qc s5 s6 qbias s7.
       obs_dtype wo = QInt8
     \<and> tensor_float (mod_weight (attrs fmod)) = Inr weight_real
     \<and> quantize_linear weight_real (fst (calculate_qparams ops wo))
          (snd (calculate_qparams ops wo)) QInt8 = Inr qweight
     \<and> Conv2d ops (mod_in_channels (attrs fmod)) (mod_out_channels (attrs fmod))
          (mod_kernel_size (attrs fmod)) (mod_stride (attrs fmod)) (mod_padding (attrs fmod))
          (mod_dilation (attrs fmod)) (mod_groups (attrs fmod))
          (mod_bias (attrs fmod) \<noteq> None) (mod_padding_mode (attrs fmod))
          (s1\<lparr>calls := calls s1 @
                 [CalculateQparams ao, CalculateQparams wo,
                  QuantizeLinear weight_real (fst (calculate_qparams ops wo))
                    (snd (calculate_qparams ops wo)) QInt8]\<rparr>) = (Inr qc, s5)
     \<and> set_weight ops qweight s5 = (Inr (), s6)
     \<and> (case mod_bias (attrs fmod) of
          None \<Rightarrow> qbias = NoneV \<and> s7 = s6
        | Some b \<Rightarrow>
            \<exists>bias_real qb.
              tensor_float b = Inr bias_real
            \<and> quantize_linear bias_real (fst (calculate_qparams ops ao) / 2 ^ 16) 0 QInt32
                = Inr qb
            \<and> qbias = TensorV qb
            \<and> s7 = s6\<lparr>calls := calls s6 @
                   [QuantizeLinear bias_real (fst (calculate_qparams ops ao) / 2 ^ 16) 0
                      QInt32]\<rparr>)
     \<and> qconv = (obj s7)\<lparr>bias := qbias, scale := fst (calculate_qparams ops ao),
                          zero_point := snd (calculate_qparams ops ao)\<rparr>
     \<and> s' = s7\<lparr>obj := qconv\<rparr>"
proof -
  obtain act_scale act_zp where a: "calculate_qparams ops ao = (act_scale, act_zp)"
    by (cases "calculate_qparams ops ao")
  obtain wt_scale wt_zp where w: "calculate_qparams ops wo = (wt_scale, wt_zp)"
    by (cases "calculate_qparams ops wo")
  show ?thesis
    using ret
    by (auto simp: from_float_def bnd_def obs a w external_def record_call_def lift_def
        ret_def raise_def set_attr_def get_obj_def
        split: prod.splits sum.splits if_splits option.splits)
qed

text \<open>A module that \<open>from_float\<close> returns has a bias that is \<open>None\<close> or a tensor.\<close>

lemma from_float_bias_not_packed:
  assumes "from_float_observers ops fmod0 s = (Inr (fmod, wo, ao), s1)"
      and "from_float ops fmod0 s = (Inr qconv, s')"
  shows "\<not> is_packed (bias qconv)"
proof -
  from from_float_returns[OF assms]
  obtain s6 qbias s7 where
    bs: "case mod_bias (attrs fmod) of
          None \<Rightarrow> qbias = NoneV \<and> s7 = s6
        | Some b \<Rightarrow>
            \<exists>bias_real qb.
              tensor_float b = Inr bias_real
            \<and> quantize_linear bias_real (fst (calculate_qparams ops ao) / 2 ^ 16) 0 QInt32
                = Inr qb
            \<and> qbias = TensorV qb
            \<and> s7 = s6\<lparr>calls := calls s6 @
                   [QuantizeLinear bias_real (fst (calculate_qparams ops ao) / 2 ^ 16) 0
                      QInt32]\<rparr>"
    and qc: "qconv = (obj s7)\<lparr>bias := qbias, scale := fst (calculate_qparams ops ao),
                          zero_point := snd (calculate_qparams ops ao)\<rparr>"
    and s': "s' = s7\<lparr>obj := qconv\<rparr>"
    by blast
  show ?thesis
    using bs by (auto simp: qc split: option.splits)
qed

lemma set_weight_returns_inv:
  assumes "set_weight ops w s = (Inr (), s1)"
  shows "\<exists>w_nhwc p.
           permute [0, 2, 3, 1] w = Inr w_nhwc
         \<and> conv_prepack ops w_nhwc (stride (obj s)) (padding (obj s)) (dilation (obj s))
             (groups (obj s)) = Inr p
         \<and> is_quantized w
         \<and> s1 = s\<lparr>calls := calls s @
                      [ConvPrepack w_nhwc (stride (obj s)) (padding (obj s))
                         (dilation (obj s)) (groups (obj s))],
                    obj := (obj s)\<lparr>packed_weight := Some p, weight_scale := qscale w\<rparr>\<rparr>"
  using assms
  by (auto simp: set_weight_def py_defs q_scale_def split: sum.splits if_splits)

lemma quantize_linear_result:
  assumes "quantize_linear x sc z dt = Inr q"
  shows "qscale q = sc \<and> qzero q = z \<and> dtype q = dt"
  using assms by (auto simp: quantize_linear_def split: storage.splits if_splits)

text \<open>
  Claim C4, as amended. Whenever \<open>from_float\<close> returns, the weight has been quantized to
  \<open>qint8\<close> with the scale and the zero point that the weight observer reports from
  \<open>calculate_qparams\<close>, and the packed weight of the module is made from that tensor:
  the zero point of the quantized weight is the reported one, zero only when the
  observer reports zero.
\<close>

theorem from_float_weight_zero_point:
  assumes obs: "from_float_observers ops fmod0 s = (Inr (fmod, wo, ao), s1)"
      and ret: "from_float ops fmod0 s = (Inr qconv, s')"
  shows "\<exists>weight_real qweight w_nhwc p.
           tensor_float (mod_weight (attrs fmod)) = Inr weight_real
         \<and> quantize_linear weight_real (fst (calculate_qparams ops wo))
              (snd (calculate_qparams ops wo)) QInt8 = Inr qweight
         \<and> qzero qweight = snd (calculate_qparams ops wo)
         \<and> qscale qweight = fst (calculate_qparams ops wo)
         \<and> dtype qweight = QInt8
         \<and> permute [0, 2, 3, 1] qweight = Inr w_nhwc
         \<and> conv_prepack ops w_nhwc (stride qconv) (padding qconv) (dilation qconv)
              (groups qconv) = Inr p
         \<and> packed_weight qconv = Some p
         \<and> weight_scale qconv = fst (calculate_qparams ops wo)"
proof -
  from from_float_returns[OF obs ret]
  obtain weight_real qweight qc s5 s6 qbias s7 where
    wr: "tensor_float (mod_weight (attrs fmod)) = Inr weight_real"
    and ql: "quantize_linear weight_real (fst (calculate_qparams ops wo))
          (snd (calculate_qparams ops wo)) QInt8 = Inr qweight"
    and sw: "set_weight ops qweight s5 = (Inr (), s6)"
    and bs: "case mod_bias (attrs fmod) of
          None \<Rightarrow> qbias = NoneV \<and> s7 = s6
        | Some b \<Rightarrow>
            \<exists>bias_real qb.
              tensor_float b = Inr bias_real
            \<and> quantize_linear bias_real (fst (calculate_qparams ops ao) / 2 ^ 16) 0 QInt32
                = Inr qb
            \<and> qbias = TensorV qb
            \<and> s7 = s6\<lparr>calls := calls s6 @
                   [QuantizeLinear bias_real (fst (calculate_qparams ops ao) / 2 ^ 16) 0
                      QInt32]\<rparr>"
    and qc: "qconv = (obj s7)\<lparr>bias := qbias, scale := fst (calculate_qparams ops ao),
                          zero_point := snd (calculate_qparams ops ao)\<rparr>"
    by blast
  from set_weight_returns_inv[OF sw] obtain w_nhwc p where
    pm: "permute [0, 2, 3, 1] qweight = Inr w_nhwc"
    and pk: "conv_prepack ops w_nhwc (stride (obj s5)) (padding (obj s5)) (dilation (obj s5))
             (groups (obj s5)) = Inr p"
    and s6: "s6 = s5\<lparr>calls := calls s5 @
                      [ConvPrepack w_nhwc (stride (obj s5)) (padding (obj s5))
                         (dilation (obj s5)) (groups (obj s5))],
                    obj := (obj s5)\<lparr>packed_weight := Some p, weight_scale := qscale qweight\<rparr>\<rparr>"
    by blast
  have o7: "obj s7 = obj s6"
    using bs by (auto split: option.splits)
  have q: "qconv = (obj s5)\<lparr>packed_weight := Some p, weight_scale := qscale qweight,
                            bias := qbias, scale := fst (calculate_qparams ops ao),
                            zero_point := snd (calculate_qparams ops ao)\<rparr>"
    by (simp add: qc o7 s6)
  show ?thesis
    using wr ql pm pk quantize_linear_result[OF ql]
    by (intro exI[of _ weight_real] exI[of _ qweight] exI[of _ w_nhwc] exI[of _ p])
       (simp add: q)
qed

theorem from_float_weight_zero_point_witness:
  "fst (from_float store_ops example_float example_world) = Inr example_converted
   \<and> snd (calculate_qparams store_ops \<lparr>obs_dtype = QInt8, obs_seen = [example_float_weight]\<rparr>)
      = 3
   \<and> (\<exists>qweight. quantize_linear example_float_weight (1 / 2) 3 QInt8 = Inr qweight
         \<and> qzero qweight = 3)"
proof -
  obtain s' where r: "from_float store_ops example_float example_world
                      = (Inr example_converted, s')"
    using example_from_float by (cases "from_float store_ops example_float example_world") simp
  have c: "calculate_qparams store_ops \<lparr>obs_dtype = QInt8, obs_seen = [example_float_weight]\<rparr>
           = (1 / 2, 3)"
    by (simp add: store_ops_def)
  have m: "mod_weight (attrs example_float) = example_float_weight"
    by (simp add: example_float_def example_attrs_def)
  have tf: "tensor_float example_float_weight = Inr example_float_weight"
    by (simp add: tensor_float_def example_float_weight_def)
  from from_float_weight_zero_point[OF example_observers r]
  obtain weight_real qweight where
    "tensor_float (mod_weight (attrs example_float)) = Inr weight_real"
    "quantize_linear weight_real
       (fst (calculate_qparams store_ops
               \<lparr>obs_dtype = QInt8, obs_seen = [example_float_weight]\<rparr>))
       (snd (calculate_qparams store_ops
               \<lparr>obs_dtype = QInt8, obs_seen = [example_float_weight]\<rparr>)) QInt8 = Inr qweight"
    "qzero qweight = snd (calculate_qparams store_ops
               \<lparr>obs_dtype = QInt8, obs_seen = [example_float_weight]\<rparr>)"
    by blast
  then have "quantize_linear example_float_weight (1 / 2) 3 QInt8 = Inr qweight \<and> qzero qweight = 3"
    by (simp add: c m tf)
  then show ?thesis
    using r c by auto
qed

text \<open>
  A weight observer that reports the zero point 3: the weight is quantized with the
  zero point 3.
\<close>

lemma example_from_float_calls:
  "calls (snd (from_float store_ops example_float example_world)) ! 3
   = QuantizeLinear example_float_weight (1 / 2) 3 QInt8"
  by (simp add: from_float_def bnd_def example_observers)
     (simp add: Conv2d_def init_def set_weight_def py_defs py_mod_def
      py_floordiv_def py_index_def store_ops_def permute_def is_axis_permutation_def
      contiguous_strides_def q_scale_def is_quantized_def example_world_def fresh_object_def
      example_module_def replicate_numeral_6 replicate_numeral_2 example_float_def
      example_attrs_def example_float_weight_def example_float_bias_def tensor_float_def
      quantize_linear_def clamp_to_def)

theorem from_float_weight_zero_point_counterexample:
  "fst (from_float store_ops example_float example_world) = Inr example_converted
   \<and> packed_weight example_converted =
       Some \<lparr>dtype = QInt8, sizes = [2, 1, 1, 3], strides = [3, 1, 1, 1],
             storage = IntStorage [5, 1, 7, - 1, 9, - 3], qscale = 1 / 2, qzero = 3\<rparr>
   \<and> calls (snd (from_float store_ops example_float example_world)) ! 3
       = QuantizeLinear example_float_weight (1 / 2) 3 QInt8
   \<and> (3::int) \<noteq> 0"
  by (simp add: example_from_float example_from_float_calls example_converted_def)








end
